theory Spec2Isabelle
  imports Complex_Main
begin

section \<open>Python values\<close>

text \<open>An exception: the name of its class and its message.\<close>

datatype exn = Exn string string

subsection \<open>\<^verbatim>\<open>Decimal\<close> under the default arithmetic settings\<close>

text \<open>
  A \<^verbatim>\<open>Decimal\<close> is a finite number, an infinity, a quiet NaN or a signalling NaN. A
  finite \<^verbatim>\<open>Decimal\<close> is modelled by its numeric value; the sign of a zero and the
  trailing zeros of a coefficient are not represented. Constructing a \<^verbatim>\<open>Decimal\<close> is
  exact. The result of an arithmetic operation is fitted to the default settings of the
  \<^verbatim>\<open>decimal\<close> module: 28 significant digits, rounding half to even, exponents between
  -999999 and 999999, with the signals \<^verbatim>\<open>InvalidOperation\<close>,
  \<^verbatim>\<open>DivisionByZero\<close> and \<^verbatim>\<open>Overflow\<close> raised as exceptions.
\<close>

datatype pydecimal = Fin rat | PosInf | NegInf | NaN | sNaN

definition prec :: int where "prec = 28"
definition Emax :: int where "Emax = 999999"
definition Etiny :: int where "Etiny = - 1000026"

definition round_half_even :: "rat \<Rightarrow> int" where
  "round_half_even y =
     (let f = \<lfloor>y\<rfloor>; r = y - of_int f
      in if r < 1 / 2 then f else if 1 / 2 < r then f + 1 else if even f then f else f + 1)"

text \<open>The number of decimal digits of a positive integer.\<close>

function ndigits :: "int \<Rightarrow> int" where
  "ndigits n = (if n < 10 then 1 else 1 + ndigits (n div 10))"
  by pat_completeness auto
termination
  by (relation "measure nat") auto

declare ndigits.simps [simp del]

text \<open>
  The exponent of the leading digit of a number that is not zero
  (\<^verbatim>\<open>Decimal.adjusted\<close>): the quotient of a numerator of \<open>m\<close> digits by a denominator of
  \<open>n\<close> digits has its leading digit at \<open>m - n\<close> or one below.
\<close>

definition adjusted :: "rat \<Rightarrow> int" where
  "adjusted x =
     (case quotient_of \<bar>x\<bar> of
        (p, q) \<Rightarrow>
          let k = ndigits p - ndigits q
          in if 10 powi k \<le> \<bar>x\<bar> then k else k - 1)"

text \<open>Rounding to a multiple of \<open>10 powi q\<close>, half to even.\<close>

definition quantize :: "int \<Rightarrow> rat \<Rightarrow> rat" where
  "quantize q x = of_int (round_half_even (x / 10 powi q)) * 10 powi q"

text \<open>
  Fitting an exact result to the settings (\<^verbatim>\<open>Decimal._fix\<close>): at most \<open>prec\<close> digits
  are kept, never digits below \<open>Etiny\<close>; a leading digit above \<open>Emax\<close>, before or after
  rounding, is an \<^verbatim>\<open>Overflow\<close>.
\<close>

definition context_fix :: "rat \<Rightarrow> exn + pydecimal" where
  "context_fix x =
     (if x = 0 then Inr (Fin 0)
      else if adjusted x > Emax then Inl (Exn ''Overflow'' ''above Emax'')
      else
        let r = quantize (max (adjusted x - (prec - 1)) Etiny) x
        in if r \<noteq> 0 \<and> adjusted r > Emax then Inl (Exn ''Overflow'' ''above Emax'')
           else Inr (Fin r))"

fun is_nan :: "pydecimal \<Rightarrow> bool" where
  "is_nan NaN = True"
| "is_nan sNaN = True"
| "is_nan d = False"

fun is_infinite :: "pydecimal \<Rightarrow> bool" where
  "is_infinite PosInf = True"
| "is_infinite NegInf = True"
| "is_infinite d = False"

fun is_negative :: "pydecimal \<Rightarrow> bool" where
  "is_negative (Fin x) = (x < 0)"
| "is_negative NegInf = True"
| "is_negative d = False"

definition signed_inf :: "bool \<Rightarrow> pydecimal" where
  "signed_inf negative = (if negative then NegInf else PosInf)"

text \<open>
  NaN operands (\<^verbatim>\<open>Decimal._check_nans\<close>): a signalling NaN raises, else a quiet NaN is
  the result; \<open>None\<close> when neither operand is a NaN.
\<close>

definition check_nans :: "pydecimal \<Rightarrow> pydecimal \<Rightarrow> (exn + pydecimal) option" where
  "check_nans a b =
     (if a = sNaN \<or> b = sNaN then Some (Inl (Exn ''InvalidOperation'' ''sNaN''))
      else if a = NaN \<or> b = NaN then Some (Inr NaN)
      else None)"

definition dec_mul :: "pydecimal \<Rightarrow> pydecimal \<Rightarrow> exn + pydecimal" where
  "dec_mul a b =
     (case check_nans a b of
        Some r \<Rightarrow> r
      | None \<Rightarrow>
          if is_infinite a \<or> is_infinite b then
            (if a = Fin 0 \<or> b = Fin 0 then Inl (Exn ''InvalidOperation'' ''INF * 0'')
             else Inr (signed_inf (is_negative a \<noteq> is_negative b)))
          else (case (a, b) of (Fin x, Fin y) \<Rightarrow> context_fix (x * y) | _ \<Rightarrow> Inr NaN))"

definition dec_div :: "pydecimal \<Rightarrow> pydecimal \<Rightarrow> exn + pydecimal" where
  "dec_div a b =
     (case check_nans a b of
        Some r \<Rightarrow> r
      | None \<Rightarrow>
          if is_infinite a \<and> is_infinite b then Inl (Exn ''InvalidOperation'' ''INF / INF'')
          else if is_infinite a then Inr (signed_inf (is_negative a \<noteq> is_negative b))
          else if is_infinite b then Inr (Fin 0)
          else if b = Fin 0 then
            (if a = Fin 0 then Inl (Exn ''InvalidOperation'' ''0 / 0'')
             else Inl (Exn ''DivisionByZero'' ''x / 0''))
          else (case (a, b) of (Fin x, Fin y) \<Rightarrow> context_fix (x / y) | _ \<Rightarrow> Inr NaN))"

definition dec_sub :: "pydecimal \<Rightarrow> pydecimal \<Rightarrow> exn + pydecimal" where
  "dec_sub a b =
     (case check_nans a b of
        Some r \<Rightarrow> r
      | None \<Rightarrow>
          if is_infinite a \<and> is_infinite b then
            (if a = b then Inl (Exn ''InvalidOperation'' ''-INF + INF'') else Inr a)
          else if is_infinite a then Inr a
          else if is_infinite b then Inr (signed_inf (\<not> is_negative b))
          else (case (a, b) of (Fin x, Fin y) \<Rightarrow> context_fix (x - y) | _ \<Rightarrow> Inr NaN))"

definition dec_add :: "pydecimal \<Rightarrow> pydecimal \<Rightarrow> exn + pydecimal" where
  "dec_add a b =
     (case check_nans a b of
        Some r \<Rightarrow> r
      | None \<Rightarrow>
          if is_infinite a \<and> is_infinite b then
            (if a \<noteq> b then Inl (Exn ''InvalidOperation'' ''-INF + INF'') else Inr a)
          else if is_infinite a then Inr a
          else if is_infinite b then Inr b
          else (case (a, b) of (Fin x, Fin y) \<Rightarrow> context_fix (x + y) | _ \<Rightarrow> Inr NaN))"

text \<open>The order of the values that are not NaN.\<close>

fun dec_less :: "pydecimal \<Rightarrow> pydecimal \<Rightarrow> bool" where
  "dec_less (Fin x) (Fin y) = (x < y)"
| "dec_less NegInf (Fin y) = True"
| "dec_less NegInf PosInf = True"
| "dec_less (Fin x) PosInf = True"
| "dec_less a b = False"

text \<open>\<^verbatim>\<open>a < b\<close> and \<^verbatim>\<open>a > b\<close>: an ordering comparison with a NaN raises.\<close>

definition dec_lt :: "pydecimal \<Rightarrow> pydecimal \<Rightarrow> exn + bool" where
  "dec_lt a b =
     (if is_nan a \<or> is_nan b then Inl (Exn ''InvalidOperation'' ''comparison involving NaN'')
      else Inr (dec_less a b))"

definition dec_gt :: "pydecimal \<Rightarrow> pydecimal \<Rightarrow> exn + bool" where
  "dec_gt a b = dec_lt b a"

subsection \<open>Identifiers and optional strings\<close>

datatype DiscountType = PERCENTAGE | FIXED_AMOUNT

text \<open>
  Identifiers typed \<^verbatim>\<open>Union[str, UUID, int]\<close>: a string, a UUID (kept in its
  canonical text form, which is what \<^verbatim>\<open>str\<close> returns) or an integer.
\<close>

datatype py_id = IdStr string | IdUUID string | IdInt int

definition digit_char :: "nat \<Rightarrow> char" where
  "digit_char n = ''0123456789'' ! (n mod 10)"

fun str_nat :: "nat \<Rightarrow> string" where
  "str_nat n = (if n < 10 then [digit_char n] else str_nat (n div 10) @ [digit_char (n mod 10)])"

declare str_nat.simps [simp del]

definition str_int :: "int \<Rightarrow> string" where
  "str_int i = (if i < 0 then CHR ''-'' # str_nat (nat (- i)) else str_nat (nat i))"

text \<open>\<^verbatim>\<open>str(x)\<close> and the truth value of \<^verbatim>\<open>x\<close> for an identifier.\<close>

fun py_str :: "py_id \<Rightarrow> string" where
  "py_str (IdStr s) = s"
| "py_str (IdUUID u) = u"
| "py_str (IdInt i) = str_int i"

fun id_truthy :: "py_id \<Rightarrow> bool" where
  "id_truthy (IdStr s) = (s \<noteq> [])"
| "id_truthy (IdUUID u) = True"
| "id_truthy (IdInt i) = (i \<noteq> 0)"

text \<open>The truth value of an \<^verbatim>\<open>Optional[str]\<close>: neither \<^verbatim>\<open>None\<close> nor empty.\<close>

fun str_truthy :: "string option \<Rightarrow> bool" where
  "str_truthy None = False"
| "str_truthy (Some s) = (s \<noteq> [])"

subsection \<open>Points in time\<close>

text \<open>
  A \<^verbatim>\<open>datetime\<close> of the discount module is a point on the time line, with or without
  time zone. The clock \<^verbatim>\<open>datetime.now(timezone.utc)\<close> has a time zone; it is the
  parameter \<open>now\<close>. Comparing it with a \<^verbatim>\<open>datetime\<close> that has none raises
  \<^verbatim>\<open>TypeError\<close>.
\<close>

datatype stamp = Aware int | Naive int

fun now_lt :: "int \<Rightarrow> stamp \<Rightarrow> exn + bool" where
  "now_lt now (Aware t) = Inr (now < t)"
| "now_lt now (Naive t) =
     Inl (Exn ''TypeError'' ''cannot compare offset-naive and offset-aware datetimes'')"

fun now_gt :: "int \<Rightarrow> stamp \<Rightarrow> exn + bool" where
  "now_gt now (Aware t) = Inr (now > t)"
| "now_gt now (Naive t) =
     Inl (Exn ''TypeError'' ''cannot compare offset-naive and offset-aware datetimes'')"

section \<open>Discount codes: data model (src/_data/discounts/models.py)\<close>

text \<open>
  Modelling conventions for the discount module.
  \<^item> An attribute that the code probes with \<^verbatim>\<open>hasattr\<close> is an option: \<open>None\<close>
    when the object's class does not declare it (\<^verbatim>\<open>BaseDiscount\<close> has no product or
    category lists, only \<^verbatim>\<open>GlobalDiscount\<close> has; neither has an affiliate).
  \<^item> The field \<^verbatim>\<open>metadata\<close> is not read by any modelled function and is left out.
  \<^item> \<^verbatim>\<open>_user_usage\<close> is no field of a discount. The module is written for version 1
    of the validation library, which leaves a name that starts with an underscore out of
    the fields: the name stays an attribute of the class, bound to the field description
    that the class body assigns to it, an object that is no dictionary.
\<close>

record discount =
  code :: string
  description :: "string option"
  discount_type :: DiscountType
  discount_value :: pydecimal
  max_uses :: "int option"
  max_uses_per_user :: "int option"
  used_count :: int
  start_date :: stamp
  end_date :: "stamp option"
  is_active :: bool
  min_purchase_amount :: "pydecimal option"
  created_at :: stamp
  updated_at :: stamp
  allowed_products :: "string list option"
  excluded_products :: "string list option"
  allowed_categories :: "string list option"
  excluded_categories :: "string list option"
  affiliate_id :: "py_id option"

text \<open>
  The constraints that the field declarations and the two validators of
  \<^verbatim>\<open>BaseDiscount\<close> impose when a discount is constructed. The pattern
  \<^verbatim>\<open>^[A-Z0-9_-]+$\<close> is matched from the start of the code, and its end also matches
  before one final newline. A decimal field holds a finite number. A validator that
  raises \<^verbatim>\<open>TypeError\<close>, as the comparison of two dates of which only one has a time
  zone does, fails the validation.
\<close>

definition code_char_ok :: "char \<Rightarrow> bool" where
  "code_char_ok c =
     (c \<in> set ''ABCDEFGHIJKLMNOPQRSTUVWXYZ0123456789_-'')"

definition code_matches :: "string \<Rightarrow> bool" where
  "code_matches s =
     (let body = (if s \<noteq> [] \<and> last s = CHR 0x0A then butlast s else s)
      in body \<noteq> [] \<and> list_all code_char_ok body)"

definition validate_discount_value :: "discount \<Rightarrow> bool" where
  "validate_discount_value d =
     (if discount_type d = PERCENTAGE
      then (case discount_value d of Fin v \<Rightarrow> \<not> v > 100 | _ \<Rightarrow> False)
      else True)"

definition validate_dates :: "discount \<Rightarrow> bool" where
  "validate_dates d =
     (case end_date d of
        None \<Rightarrow> True
      | Some (Aware e) \<Rightarrow> (case start_date d of Aware s \<Rightarrow> \<not> e \<le> s | Naive s \<Rightarrow> False)
      | Some (Naive e) \<Rightarrow> (case start_date d of Naive s \<Rightarrow> \<not> e \<le> s | Aware s \<Rightarrow> False))"

definition BaseDiscount_valid :: "discount \<Rightarrow> bool" where
  "BaseDiscount_valid d =
     (4 \<le> length (code d) \<and> length (code d) \<le> 50 \<and> code_matches (code d)
      \<and> (case description d of None \<Rightarrow> True | Some t \<Rightarrow> length t \<le> 500)
      \<and> (case discount_value d of Fin v \<Rightarrow> v > 0 | _ \<Rightarrow> False)
      \<and> (case max_uses d of None \<Rightarrow> True | Some m \<Rightarrow> m > 0)
      \<and> (case max_uses_per_user d of None \<Rightarrow> True | Some m \<Rightarrow> m > 0)
      \<and> used_count d \<ge> 0
      \<and> (case min_purchase_amount d of None \<Rightarrow> True | Some (Fin m) \<Rightarrow> m > 0 | Some _ \<Rightarrow> False)
      \<and> validate_discount_value d
      \<and> validate_dates d)"

subsection \<open>Methods of \<^verbatim>\<open>BaseDiscount\<close>\<close>

text \<open>
  \<^verbatim>\<open>get_user_usage_count\<close> calls \<^verbatim>\<open>self._user_usage.get\<close>: the attribute is the
  field description of the class, which has no method \<^verbatim>\<open>get\<close>, so every call raises
  \<^verbatim>\<open>AttributeError\<close>.
\<close>

definition get_user_usage_count :: "discount \<Rightarrow> string \<Rightarrow> exn + int" where
  "get_user_usage_count d user_id =
     Inl (Exn ''AttributeError'' ''FieldInfo object has no attribute get'')"

definition can_user_use_code :: "discount \<Rightarrow> string option \<Rightarrow> int \<Rightarrow> exn + bool" where
  "can_user_use_code d user_id now =
     (if \<not> is_active d then Inr False
      else if max_uses d \<noteq> None \<and> used_count d \<ge> the (max_uses d) then Inr False
      else
        (case (if str_truthy user_id \<and> max_uses_per_user d \<noteq> None
               then (case get_user_usage_count d (the user_id) of
                       Inl e \<Rightarrow> Inl e
                     | Inr user_usage \<Rightarrow> Inr (user_usage \<ge> the (max_uses_per_user d)))
               else Inr False) of
           Inl e \<Rightarrow> Inl e
         | Inr True \<Rightarrow> Inr False
         | Inr False \<Rightarrow>
             (case now_lt now (start_date d) of
                Inl e \<Rightarrow> Inl e
              | Inr True \<Rightarrow> Inr False
              | Inr False \<Rightarrow>
                  (case end_date d of
                     None \<Rightarrow> Inr True
                   | Some e \<Rightarrow>
                       (case now_gt now e of
                          Inl ex \<Rightarrow> Inl ex
                        | Inr True \<Rightarrow> Inr False
                        | Inr False \<Rightarrow> Inr True)))))"

text \<open>
  \<^verbatim>\<open>record_usage\<close> changes the discount in place; the result is the exception raised,
  if any, and the discount as the call leaves it. The count of all uses is incremented
  first. With a user id the per-user count is read next, which raises before anything is
  written to it and before the time stamp is set.
\<close>

definition record_usage :: "discount \<Rightarrow> string option \<Rightarrow> int \<Rightarrow> exn option \<times> discount" where
  "record_usage d user_id now =
     (let d1 = d\<lparr>used_count := used_count d + 1\<rparr> in
      if str_truthy user_id then
        (case get_user_usage_count d1 (the user_id) of
           Inl e \<Rightarrow> (Some e, d1)
         | Inr n \<Rightarrow>
             (Some (Exn ''TypeError'' ''FieldInfo object does not support item assignment''), d1))
      else (None, d1\<lparr>updated_at := Aware now\<rparr>))"

section \<open>Discount codes: the service (src/_data/discounts/service.py)\<close>

text \<open>
  The storage adapter is an object supplied by the caller; its class is not part of the
  repository. It is a parameter of the model: its methods work on a storage state of type
  \<open>'s\<close>. The two lookups return a value or raise; \<open>get_user_usage\<close> is optional (the
  service probes it with \<^verbatim>\<open>hasattr\<close>). \<open>usage_recorder\<close> is the adapter's
  \<^verbatim>\<open>record_usage\<close>; it yields the exception it raised, if any, and the storage state it
  leaves behind.
\<close>

record 's storage_adapter =
  get_discount_by_code :: "'s \<Rightarrow> string \<Rightarrow> exn + discount option"
  get_user_usage :: "('s \<Rightarrow> string \<Rightarrow> string \<Rightarrow> exn + int) option"
  usage_recorder :: "'s \<Rightarrow> string \<Rightarrow> string option \<Rightarrow> exn option \<times> 's"

text \<open>
  \<^verbatim>\<open>DiscountService.storage\<close>: \<open>None\<close>, or an adapter together with its current
  state.
\<close>

type_synonym 's service = "('s storage_adapter \<times> 's) option"

text \<open>
  An amount argument, typed \<^verbatim>\<open>Union[Decimal, float, int, str]\<close>: either a
  \<^verbatim>\<open>Decimal\<close>, or another value, given by what \<^verbatim>\<open>Decimal(str(amount))\<close> does
  with it: \<open>Some a\<close> when the conversion yields \<open>a\<close>, \<open>None\<close> when it raises
  \<^verbatim>\<open>TypeError\<close> or \<^verbatim>\<open>InvalidOperation\<close>.
\<close>

datatype amount_arg = IsDecimal pydecimal | NonDecimal "pydecimal option"

fun to_decimal :: "amount_arg \<Rightarrow> pydecimal option" where
  "to_decimal (IsDecimal a) = Some a"
| "to_decimal (NonDecimal c) = c"

text \<open>
  The messages of the service, one constructor for each text:
  \<^item> \<open>InvalidCode\<close>: "Invalid discount code"
  \<^item> \<open>InvalidAmountFormat\<close>: "Invalid amount format"
  \<^item> \<open>NoLongerActive\<close>: "This code is no longer active"
  \<^item> \<open>UsageLimitReached\<close>: "This code has reached its usage limit"
  \<^item> \<open>UserLimitReached\<close>: "You have already used this code the maximum number of times"
  \<^item> \<open>NotYetValid\<close>: "This code is not yet valid"
  \<^item> \<open>Expired\<close>: "This code has expired"
  \<^item> \<open>MinPurchaseRequired m\<close>: "Minimum purchase amount of m required"
  \<^item> \<open>InvalidAmountOrMinimum e\<close>: "Invalid amount or minimum purchase amount: e"
  \<^item> \<open>NotValidForProduct\<close>: "This code is not valid for the selected product"
  \<^item> \<open>NotValidForCategory\<close>: "This code is not valid for the selected category"
  \<^item> \<open>NotValidForAccount\<close>: "This code is not valid for your account"
  \<^item> \<open>ValidCode\<close>: "Valid discount code"
  \<^item> \<open>AmountFormatError\<close>: "Invalid amount format: ..." (of \<^verbatim>\<open>apply_discount\<close>)
  \<^item> \<open>Applied\<close>: "Discount applied successfully"
  \<^item> \<open>ErrorApplying e\<close>: "Error applying discount: e"
\<close>

datatype message =
    InvalidCode | InvalidAmountFormat | NoLongerActive | UsageLimitReached
  | UserLimitReached | NotYetValid | Expired | MinPurchaseRequired pydecimal
  | InvalidAmountOrMinimum exn
  | NotValidForProduct | NotValidForCategory | NotValidForAccount | ValidCode
  | AmountFormatError | Applied | ErrorApplying exn

type_synonym validation = "bool \<times> discount option \<times> message"

definition svc_get_discount_by_code :: "'s service \<Rightarrow> string \<Rightarrow> exn + discount option" where
  "svc_get_discount_by_code svc c =
     (case svc of
        Some (adapter, st) \<Rightarrow> get_discount_by_code adapter st c
      | None \<Rightarrow> Inr None)"

definition svc_get_user_usage :: "'s service \<Rightarrow> discount \<Rightarrow> string \<Rightarrow> exn + int" where
  "svc_get_user_usage svc d user_id =
     (case svc of
        Some (adapter, st) \<Rightarrow>
          (case get_user_usage adapter of
             Some f \<Rightarrow> f st (code d) user_id
           | None \<Rightarrow> get_user_usage_count d user_id)
      | None \<Rightarrow> get_user_usage_count d user_id)"

text \<open>
  \<^verbatim>\<open>_record_discount_usage\<close>: the exception raised, if any, the storage after the call
  and the discount object after the call (only the in-memory fallback changes it).
\<close>

definition svc_record_discount_usage ::
  "'s service \<Rightarrow> discount \<Rightarrow> string option \<Rightarrow> int \<Rightarrow> exn option \<times> 's service \<times> discount" where
  "svc_record_discount_usage svc d user_id now =
     (case svc of
        Some (adapter, st) \<Rightarrow>
          (case usage_recorder adapter st (code d) user_id of
             (e, st') \<Rightarrow> (e, Some (adapter, st'), d))
      | None \<Rightarrow> (case record_usage d user_id now of (e, d') \<Rightarrow> (e, None, d')))"

text \<open>
  \<^verbatim>\<open>validate_discount_code\<close> in three parts, last part first. Lines 89 to 110 of the
  source: the restrictions to products, categories and an affiliate.
\<close>

definition validate_scoping ::
  "discount \<Rightarrow> string option \<Rightarrow> string option \<Rightarrow> string option \<Rightarrow> validation" where
  "validate_scoping d product_id category_id aff_id =
     (if (allowed_products d \<noteq> None \<and> the (allowed_products d) \<noteq> [])
         \<and> (str_truthy product_id \<and> the product_id \<notin> set (the (allowed_products d)))
        then (False, Some d, NotValidForProduct)
      else if excluded_products d \<noteq> None
              \<and> (product_id \<noteq> None \<and> the product_id \<in> set (the (excluded_products d)))
        then (False, Some d, NotValidForProduct)
      else if (allowed_categories d \<noteq> None \<and> the (allowed_categories d) \<noteq> [])
              \<and> (\<not> str_truthy category_id
                   \<or> the category_id \<notin> set (the (allowed_categories d)))
        then (False, Some d, NotValidForCategory)
      else if excluded_categories d \<noteq> None
              \<and> (category_id \<noteq> None
                   \<and> the category_id \<in> set (the (excluded_categories d)))
        then (False, Some d, NotValidForCategory)
      else if (affiliate_id d \<noteq> None \<and> id_truthy (the (affiliate_id d)))
              \<and> (\<not> str_truthy aff_id \<or> the aff_id \<noteq> py_str (the (affiliate_id d)))
        then (False, Some d, NotValidForAccount)
      else (True, Some d, ValidCode))"

text \<open>
  Lines 69 to 87: the date window and the minimum purchase. The comparison with the
  minimum is inside a \<^verbatim>\<open>try\<close> whose handler returns a rejection.
\<close>

definition validate_from_dates ::
  "discount \<Rightarrow> int \<Rightarrow> pydecimal option \<Rightarrow> string option \<Rightarrow> string option \<Rightarrow> string option
     \<Rightarrow> exn + validation" where
  "validate_from_dates d now amt product_id category_id aff_id =
     (case now_lt now (start_date d) of
        Inl e \<Rightarrow> Inl e
      | Inr True \<Rightarrow> Inr (False, Some d, NotYetValid)
      | Inr False \<Rightarrow>
          (case (case end_date d of None \<Rightarrow> Inr False | Some e \<Rightarrow> now_gt now e) of
             Inl e \<Rightarrow> Inl e
           | Inr True \<Rightarrow> Inr (False, Some d, Expired)
           | Inr False \<Rightarrow>
               if amt \<noteq> None \<and> min_purchase_amount d \<noteq> None then
                 (case dec_lt (the amt) (the (min_purchase_amount d)) of
                    Inl e \<Rightarrow> Inr (False, Some d, InvalidAmountOrMinimum e)
                  | Inr True \<Rightarrow>
                      Inr (False, Some d, MinPurchaseRequired (the (min_purchase_amount d)))
                  | Inr False \<Rightarrow> Inr (validate_scoping d product_id category_id aff_id))
               else Inr (validate_scoping d product_id category_id aff_id)))"

text \<open>
  Lines 43 to 67: the lookup, the conversion of the amount, the active flag and the usage
  limits. No exception is handled here.
\<close>

definition validate_discount_code ::
  "'s service \<Rightarrow> int \<Rightarrow> string \<Rightarrow> string option \<Rightarrow> string option \<Rightarrow> string option
     \<Rightarrow> py_id option \<Rightarrow> amount_arg option \<Rightarrow> exn + validation" where
  "validate_discount_code svc now c product_id category_id aff_id user_id amount =
     (case svc_get_discount_by_code svc c of
        Inl e \<Rightarrow> Inl e
      | Inr None \<Rightarrow> Inr (False, None, InvalidCode)
      | Inr (Some d) \<Rightarrow>
          if amount \<noteq> None \<and> to_decimal (the amount) = None
          then Inr (False, Some d, InvalidAmountFormat)
          else
            let amt = (case amount of None \<Rightarrow> None | Some a \<Rightarrow> to_decimal a) in
            if \<not> is_active d then Inr (False, Some d, NoLongerActive)
            else if max_uses d \<noteq> None \<and> used_count d \<ge> the (max_uses d)
              then Inr (False, Some d, UsageLimitReached)
            else if (user_id \<noteq> None \<and> id_truthy (the user_id))
                    \<and> (max_uses_per_user d \<noteq> None \<and> the (max_uses_per_user d) \<noteq> 0)
              then
                (case svc_get_user_usage svc d (py_str (the user_id)) of
                   Inl e \<Rightarrow> Inl e
                 | Inr user_usage \<Rightarrow>
                     if user_usage \<ge> the (max_uses_per_user d)
                     then Inr (False, Some d, UserLimitReached)
                     else validate_from_dates d now amt product_id category_id aff_id)
            else validate_from_dates d now amt product_id category_id aff_id)"

text \<open>
  Lines 146 to 156 of \<^verbatim>\<open>apply_discount\<close>: the new amount. \<^verbatim>\<open>min(v, a)\<close> is
  \<^verbatim>\<open>a\<close> when \<^verbatim>\<open>a < v\<close> and \<^verbatim>\<open>max(0, n)\<close> is \<^verbatim>\<open>n\<close> when \<^verbatim>\<open>n > 0\<close>.
\<close>

definition new_amount :: "discount \<Rightarrow> pydecimal \<Rightarrow> exn + pydecimal" where
  "new_amount d amount =
     (case (if discount_type d = PERCENTAGE then
              (case dec_mul amount (discount_value d) of
                 Inl e \<Rightarrow> Inl e
               | Inr product \<Rightarrow> dec_div product (Fin 100))
            else
              (case dec_lt amount (discount_value d) of
                 Inl e \<Rightarrow> Inl e
               | Inr smaller \<Rightarrow> Inr (if smaller then amount else discount_value d))) of
        Inl e \<Rightarrow> Inl e
      | Inr discount_amount \<Rightarrow>
          (case dec_sub amount discount_amount of
             Inl e \<Rightarrow> Inl e
           | Inr n \<Rightarrow>
               (case dec_gt n (Fin 0) of
                  Inl e \<Rightarrow> Inl e
                | Inr positive \<Rightarrow> Inr (if positive then n else Fin 0))))"

text \<open>
  \<^verbatim>\<open>apply_discount\<close>: what the call returns or raises, and the storage it leaves.
  The validation is called outside the \<^verbatim>\<open>try\<close>, so an exception of the validation
  leaves the function.
\<close>

definition apply_discount ::
  "'s service \<Rightarrow> int \<Rightarrow> string \<Rightarrow> amount_arg \<Rightarrow> py_id option
     \<Rightarrow> string option \<Rightarrow> string option \<Rightarrow> string option
     \<Rightarrow> (exn + bool \<times> pydecimal \<times> discount option \<times> message) \<times> 's service" where
  "apply_discount svc now c amount user_id product_id category_id aff_id =
     (case to_decimal amount of
        None \<Rightarrow> (Inr (False, Fin 0, None, AmountFormatError), svc)
      | Some a \<Rightarrow>
          (case validate_discount_code svc now c product_id category_id aff_id user_id
                  (Some (IsDecimal a)) of
             Inl e \<Rightarrow> (Inl e, svc)
           | Inr (is_valid, discount, msg) \<Rightarrow>
               if \<not> is_valid \<or> discount = None then (Inr (False, a, discount, msg), svc)
               else
                 (case new_amount (the discount) a of
                    Inl e \<Rightarrow> (Inr (False, a, discount, ErrorApplying e), svc)
                  | Inr n \<Rightarrow>
                      (case svc_record_discount_usage svc (the discount)
                              (if user_id \<noteq> None \<and> id_truthy (the user_id)
                               then Some (py_str (the user_id)) else None) now of
                         (Some e, svc', d') \<Rightarrow> (Inr (False, a, Some d', ErrorApplying e), svc')
                       | (None, svc', d') \<Rightarrow> (Inr (True, n, Some d', Applied), svc')))))"

subsection \<open>The order of the checks, as a list\<close>

text \<open>
  What one check of the validation does with a discount that was found: it lets the
  validation go on, it rejects with a message, or it raises.
\<close>

datatype check_outcome = Pass | Reject message | Abort exn

definition amount_check :: "amount_arg option \<Rightarrow> check_outcome" where
  "amount_check amount =
     (case amount of
        None \<Rightarrow> Pass
      | Some a \<Rightarrow> (case to_decimal a of None \<Rightarrow> Reject InvalidAmountFormat | Some x \<Rightarrow> Pass))"

definition active_check :: "discount \<Rightarrow> check_outcome" where
  "active_check d = (if is_active d then Pass else Reject NoLongerActive)"

definition total_limit_check :: "discount \<Rightarrow> check_outcome" where
  "total_limit_check d =
     (case max_uses d of
        None \<Rightarrow> Pass
      | Some m \<Rightarrow> if m \<le> used_count d then Reject UsageLimitReached else Pass)"

definition user_limit_check :: "'s service \<Rightarrow> discount \<Rightarrow> py_id option \<Rightarrow> check_outcome" where
  "user_limit_check svc d user_id =
     (case user_id of
        None \<Rightarrow> Pass
      | Some u \<Rightarrow>
          if \<not> id_truthy u then Pass
          else
            (case max_uses_per_user d of
               None \<Rightarrow> Pass
             | Some m \<Rightarrow>
                 if m = 0 then Pass
                 else
                   (case svc_get_user_usage svc d (py_str u) of
                      Inl e \<Rightarrow> Abort e
                    | Inr n \<Rightarrow> if m \<le> n then Reject UserLimitReached else Pass)))"

definition start_check :: "discount \<Rightarrow> int \<Rightarrow> check_outcome" where
  "start_check d now =
     (case now_lt now (start_date d) of
        Inl e \<Rightarrow> Abort e
      | Inr early \<Rightarrow> if early then Reject NotYetValid else Pass)"

definition end_check :: "discount \<Rightarrow> int \<Rightarrow> check_outcome" where
  "end_check d now =
     (case end_date d of
        None \<Rightarrow> Pass
      | Some e \<Rightarrow>
          (case now_gt now e of
             Inl ex \<Rightarrow> Abort ex
           | Inr late \<Rightarrow> if late then Reject Expired else Pass))"

definition minimum_check :: "discount \<Rightarrow> amount_arg option \<Rightarrow> check_outcome" where
  "minimum_check d amount =
     (case amount of
        None \<Rightarrow> Pass
      | Some x \<Rightarrow>
          (case to_decimal x of
             None \<Rightarrow> Pass
           | Some a \<Rightarrow>
               (case min_purchase_amount d of
                  None \<Rightarrow> Pass
                | Some m \<Rightarrow>
                    (case dec_lt a m of
                       Inl e \<Rightarrow> Reject (InvalidAmountOrMinimum e)
                     | Inr below \<Rightarrow> if below then Reject (MinPurchaseRequired m) else Pass))))"

definition allowed_products_check :: "discount \<Rightarrow> string option \<Rightarrow> check_outcome" where
  "allowed_products_check d product_id =
     (case allowed_products d of
        None \<Rightarrow> Pass
      | Some ps \<Rightarrow>
          (case product_id of
             None \<Rightarrow> Pass
           | Some p \<Rightarrow>
               if ps \<noteq> [] \<and> p \<noteq> [] \<and> p \<notin> set ps then Reject NotValidForProduct else Pass))"

definition excluded_products_check :: "discount \<Rightarrow> string option \<Rightarrow> check_outcome" where
  "excluded_products_check d product_id =
     (case excluded_products d of
        None \<Rightarrow> Pass
      | Some ps \<Rightarrow>
          (case product_id of
             None \<Rightarrow> Pass
           | Some p \<Rightarrow> if p \<in> set ps then Reject NotValidForProduct else Pass))"

definition allowed_categories_check :: "discount \<Rightarrow> string option \<Rightarrow> check_outcome" where
  "allowed_categories_check d category_id =
     (case allowed_categories d of
        None \<Rightarrow> Pass
      | Some cs \<Rightarrow>
          if cs = [] then Pass
          else
            (case category_id of
               None \<Rightarrow> Reject NotValidForCategory
             | Some c \<Rightarrow> if c = [] \<or> c \<notin> set cs then Reject NotValidForCategory else Pass))"

definition excluded_categories_check :: "discount \<Rightarrow> string option \<Rightarrow> check_outcome" where
  "excluded_categories_check d category_id =
     (case excluded_categories d of
        None \<Rightarrow> Pass
      | Some cs \<Rightarrow>
          (case category_id of
             None \<Rightarrow> Pass
           | Some c \<Rightarrow> if c \<in> set cs then Reject NotValidForCategory else Pass))"

definition affiliate_check :: "discount \<Rightarrow> string option \<Rightarrow> check_outcome" where
  "affiliate_check d aff_id =
     (case affiliate_id d of
        None \<Rightarrow> Pass
      | Some own \<Rightarrow>
          if \<not> id_truthy own then Pass
          else
            (case aff_id of
               None \<Rightarrow> Reject NotValidForAccount
             | Some a \<Rightarrow> if a = [] \<or> a \<noteq> py_str own then Reject NotValidForAccount else Pass))"

text \<open>The first check of a list that does not pass decides.\<close>

fun first_outcome :: "check_outcome list \<Rightarrow> check_outcome" where
  "first_outcome [] = Pass"
| "first_outcome (Pass # cs) = first_outcome cs"
| "first_outcome (c # cs) = c"

text \<open>The result that a list of checks prescribes for a discount that was found.\<close>

definition verdict :: "discount \<Rightarrow> check_outcome list \<Rightarrow> exn + validation" where
  "verdict d checks =
     (case first_outcome checks of
        Pass \<Rightarrow> Inr (True, Some d, ValidCode)
      | Reject msg \<Rightarrow> Inr (False, Some d, msg)
      | Abort e \<Rightarrow> Inl e)"

text \<open>
  The order that the specification names: usage limits, date window, minimum purchase,
  product scoping, category scoping, affiliate scoping.
\<close>

definition claimed_checks ::
  "'s service \<Rightarrow> int \<Rightarrow> discount \<Rightarrow> string option \<Rightarrow> string option \<Rightarrow> string option
     \<Rightarrow> py_id option \<Rightarrow> amount_arg option \<Rightarrow> check_outcome list" where
  "claimed_checks svc now d product_id category_id aff_id user_id amount =
     [total_limit_check d,
      user_limit_check svc d user_id,
      start_check d now,
      end_check d now,
      minimum_check d amount,
      allowed_products_check d product_id,
      excluded_products_check d product_id,
      allowed_categories_check d category_id,
      excluded_categories_check d category_id,
      affiliate_check d aff_id]"

text \<open>
  The same list with the two checks that the code makes before the usage limits: the
  amount must convert to a decimal, and the code must be active.
\<close>

definition all_checks ::
  "'s service \<Rightarrow> int \<Rightarrow> discount \<Rightarrow> string option \<Rightarrow> string option \<Rightarrow> string option
     \<Rightarrow> py_id option \<Rightarrow> amount_arg option \<Rightarrow> check_outcome list" where
  "all_checks svc now d product_id category_id aff_id user_id amount =
     amount_check amount # active_check d
       # claimed_checks svc now d product_id category_id aff_id user_id amount"

text \<open>
  The amount that the specification words: exact arithmetic, the amount less
  \<open>amount * discount_value / 100\<close> or less \<open>min discount_value amount\<close>, not below zero.
\<close>

definition exact_new_amount :: "DiscountType \<Rightarrow> rat \<Rightarrow> rat \<Rightarrow> rat" where
  "exact_new_amount t v a =
     max 0 (a - (if t = PERCENTAGE then a * v / 100 else min v a))"

text \<open>
  No step of that computation needs rounding: each exact intermediate result is a decimal
  that the arithmetic settings leave as it is.
\<close>

definition exact_steps :: "DiscountType \<Rightarrow> rat \<Rightarrow> rat \<Rightarrow> bool" where
  "exact_steps t v a =
     (if t = PERCENTAGE
      then context_fix (a * v) = Inr (Fin (a * v))
           \<and> context_fix (a * v / 100) = Inr (Fin (a * v / 100))
           \<and> context_fix (a - a * v / 100) = Inr (Fin (a - a * v / 100))
      else context_fix (a - min v a) = Inr (Fin (a - min v a)))"

section \<open>Affiliate payout schedule (src/_data/user/affiliate/models.py)\<close>

text \<open>
  The affiliate module does calendar arithmetic, so here a \<^verbatim>\<open>datetime\<close> is the record
  of its calendar fields. \<^verbatim>\<open>datetime.utcnow()\<close> is the parameter \<open>now\<close>.
\<close>

datatype PayoutSchedule = WEEKLY | BIWEEKLY | MONTHLY | QUARTERLY

record pydatetime =
  year :: int
  month :: int
  day :: int
  hour :: int
  minute :: int
  second :: int
  microsecond :: int

definition is_leap :: "int \<Rightarrow> bool" where
  "is_leap y = (y mod 4 = 0 \<and> (y mod 100 \<noteq> 0 \<or> y mod 400 = 0))"

definition days_in_month :: "int \<Rightarrow> int \<Rightarrow> int" where
  "days_in_month y m =
     (if m = 2 then (if is_leap y then 29 else 28)
      else if m = 4 \<or> m = 6 \<or> m = 9 \<or> m = 11 then 30 else 31)"

text \<open>The dates that the library accepts: years 1 to 9999, a month, a day of that month.\<close>

definition date_ok :: "int \<Rightarrow> int \<Rightarrow> int \<Rightarrow> bool" where
  "date_ok y m d = (1 \<le> y \<and> y \<le> 9999 \<and> 1 \<le> m \<and> m \<le> 12 \<and> 1 \<le> d \<and> d \<le> days_in_month y m)"

definition datetime_ok :: "pydatetime \<Rightarrow> bool" where
  "datetime_ok t =
     (date_ok (year t) (month t) (day t) \<and> 0 \<le> hour t \<and> hour t < 24
      \<and> 0 \<le> minute t \<and> minute t < 60 \<and> 0 \<le> second t \<and> second t < 60
      \<and> 0 \<le> microsecond t \<and> microsecond t < 1000000)"

text \<open>
  \<^verbatim>\<open>now.replace(month=m, day=d, year=y)\<close>: the other fields are kept;
  \<^verbatim>\<open>ValueError\<close> when the date does not exist.
\<close>

definition replace_date :: "pydatetime \<Rightarrow> int \<Rightarrow> int \<Rightarrow> int \<Rightarrow> exn + pydatetime" where
  "replace_date t m d y =
     (if date_ok y m d then Inr (t\<lparr>year := y, month := m, day := d\<rparr>)
      else Inl (Exn ''ValueError'' ''date out of range''))"

text \<open>
  \<^verbatim>\<open>now + timedelta(weeks=w)\<close>: the date moves forward day by day, the time of day is
  kept; \<^verbatim>\<open>OverflowError\<close> past the year 9999.
\<close>

definition next_day :: "pydatetime \<Rightarrow> pydatetime" where
  "next_day t =
     (if day t < days_in_month (year t) (month t) then t\<lparr>day := day t + 1\<rparr>
      else if month t < 12 then t\<lparr>month := month t + 1, day := 1\<rparr>
      else t\<lparr>year := year t + 1, month := 1, day := 1\<rparr>)"

fun add_days :: "nat \<Rightarrow> pydatetime \<Rightarrow> pydatetime" where
  "add_days 0 t = t"
| "add_days (Suc n) t = add_days n (next_day t)"

definition add_weeks :: "pydatetime \<Rightarrow> nat \<Rightarrow> exn + pydatetime" where
  "add_weeks t w =
     (let r = add_days (7 * w) t in
      if year r > 9999 then Inl (Exn ''OverflowError'' ''date value out of range'') else Inr r)"

text \<open>
  The \<^verbatim>\<open>values\<close> dictionary that the root validator receives: a field is \<open>None\<close>
  when the dictionary has no entry for it (its own validation failed) or, for
  \<open>next_payout_date\<close>, when the entry is \<^verbatim>\<open>None\<close>. Only the entries that the
  validator reads or writes are kept. The sum of the two amounts is a \<^verbatim>\<open>Decimal\<close>
  addition.
\<close>

record profile_values =
  total_commissions :: "pydecimal option"
  pending_payout :: "pydecimal option"
  lifetime_earnings :: "pydecimal option"
  next_payout_date :: "pydatetime option"
  payout_schedule :: "PayoutSchedule option"

definition calculate_lifetime_earnings :: "pydatetime \<Rightarrow> profile_values \<Rightarrow> exn + profile_values" where
  "calculate_lifetime_earnings now vals =
     (let total = (case total_commissions vals of None \<Rightarrow> Fin 0 | Some t \<Rightarrow> t);
          pending = (case pending_payout vals of None \<Rightarrow> Fin 0 | Some p \<Rightarrow> p)
      in case dec_add total pending of
           Inl e \<Rightarrow> Inl e
         | Inr earnings \<Rightarrow>
             (let vals1 = vals\<lparr>lifetime_earnings := Some earnings\<rparr> in
              if next_payout_date vals1 = None \<and> payout_schedule vals1 \<noteq> None then
                (let schedule = the (payout_schedule vals1) in
                 if schedule = WEEKLY \<or> schedule = BIWEEKLY \<or> schedule = QUARTERLY then
                   (case add_weeks now (if schedule = WEEKLY then 1
                                        else if schedule = BIWEEKLY then 2 else 13) of
                      Inl e \<Rightarrow> Inl e
                    | Inr t \<Rightarrow> Inr (vals1\<lparr>next_payout_date := Some t\<rparr>))
                 else
                   (let next_month = month now mod 12 + 1;
                        y = year now + (if next_month = 1 then 1 else 0)
                    in case replace_date now next_month 1 y of
                         Inr next_date \<Rightarrow> Inr (vals1\<lparr>next_payout_date := Some next_date\<rparr>)
                       | Inl _ \<Rightarrow>
                           (case replace_date now next_month 28 y of
                              Inr next_date \<Rightarrow> Inr (vals1\<lparr>next_payout_date := Some next_date\<rparr>)
                            | Inl e \<Rightarrow> Inl e)))
              else Inr vals1))"

text \<open>
  The schedule as the specification words it: a calendar month or a calendar quarter
  later, the day clamped to the end of a shorter target month.
\<close>

definition add_months_clamped :: "pydatetime \<Rightarrow> int \<Rightarrow> pydatetime" where
  "add_months_clamped t k =
     (let idx = month t - 1 + k;
          y = year t + idx div 12;
          m = idx mod 12 + 1
      in t\<lparr>year := y, month := m, day := min (day t) (days_in_month y m)\<rparr>)"

definition calendar_aware_next_payout :: "PayoutSchedule \<Rightarrow> pydatetime \<Rightarrow> pydatetime" where
  "calendar_aware_next_payout schedule now =
     (case schedule of
        WEEKLY \<Rightarrow> add_days 7 now
      | BIWEEKLY \<Rightarrow> add_days 14 now
      | MONTHLY \<Rightarrow> add_months_clamped now 1
      | QUARTERLY \<Rightarrow> add_months_clamped now 3)"

text \<open>
  The day number of a date as the library defines it (\<^verbatim>\<open>date.toordinal\<close>): the days
  before the year, the days before the month, and the day.
\<close>

definition days_before_year :: "int \<Rightarrow> int" where
  "days_before_year y = (y - 1) * 365 + (y - 1) div 4 - (y - 1) div 100 + (y - 1) div 400"

definition days_before_month :: "int \<Rightarrow> int \<Rightarrow> int" where
  "days_before_month y m =
     [0, 31, 59, 90, 120, 151, 181, 212, 243, 273, 304, 334] ! nat (m - 1)
       + (if m > 2 \<and> is_leap y then 1 else 0)"

definition toordinal :: "pydatetime \<Rightarrow> int" where
  "toordinal t = days_before_year (year t) + days_before_month (year t) (month t) + day t"

section \<open>The CRUD base service (src/_data/user/ai_chat_threads/services/base.py)\<close>

text \<open>
  \<^verbatim>\<open>_storage\<close> is a Python dictionary: its keys are unique and keep the order in which
  they were first inserted, which is the order of \<^verbatim>\<open>values()\<close>. It is an association
  list; assigning to a key that is present replaces the value in place, assigning to a new
  key appends.
\<close>

type_synonym UUID = nat
type_synonym ('k, 'a) pydict = "('k \<times> 'a) list"

definition dict_get :: "('k, 'a) pydict \<Rightarrow> 'k \<Rightarrow> 'a option" where
  "dict_get s k = map_of s k"

definition dict_contains :: "('k, 'a) pydict \<Rightarrow> 'k \<Rightarrow> bool" where
  "dict_contains s k = (k \<in> set (map fst s))"

definition dict_set :: "('k, 'a) pydict \<Rightarrow> 'k \<Rightarrow> 'a \<Rightarrow> ('k, 'a) pydict" where
  "dict_set s k v =
     (if dict_contains s k then map (\<lambda>(k', v'). if k' = k then (k', v) else (k', v')) s
      else s @ [(k, v)])"

definition dict_del :: "('k, 'a) pydict \<Rightarrow> 'k \<Rightarrow> ('k, 'a) pydict" where
  "dict_del s k = filter (\<lambda>(k', v'). k' \<noteq> k) s"

definition dict_values :: "('k, 'a) pydict \<Rightarrow> 'a list" where
  "dict_values s = map snd s"

text \<open>
  The service is generic in the model class \<open>T\<close>. What it uses of an item of type \<open>'a\<close>
  is a parameter: \<open>item_id\<close> is \<^verbatim>\<open>item.id\<close>; \<open>item_getattr\<close> is
  \<^verbatim>\<open>getattr(item, key)\<close>, \<open>None\<close> when the item has no such attribute (the call then
  raises \<^verbatim>\<open>AttributeError\<close>); \<open>model_class\<close> is the constructor applied to a
  dictionary of type \<open>'d\<close>, which may raise. \<^verbatim>\<open>update\<close> is not modelled.
\<close>

record ('a, 'd, 'v) model_ops =
  item_id :: "'a \<Rightarrow> UUID"
  item_getattr :: "'a \<Rightarrow> string \<Rightarrow> 'v option"
  model_class :: "'d \<Rightarrow> exn + 'a"

datatype ('a, 'd) create_data = FromDict 'd | FromItem 'a

definition BaseService_get :: "(UUID, 'a) pydict \<Rightarrow> UUID \<Rightarrow> 'a option" where
  "BaseService_get storage i = dict_get storage i"

text \<open>
  \<^verbatim>\<open>all(getattr(item, key) == value for key, value in filters.items())\<close>: it stops at
  the first filter that does not match, and raises where the attribute is missing.
\<close>

fun matches_filters :: "('a \<Rightarrow> string \<Rightarrow> 'v option) \<Rightarrow> 'a \<Rightarrow> (string, 'v) pydict \<Rightarrow> exn + bool" where
  "matches_filters g item [] = Inr True"
| "matches_filters g item ((k, v) # fs) =
     (case g item k of
        None \<Rightarrow> Inl (Exn ''AttributeError'' k)
      | Some x \<Rightarrow> if x = v then matches_filters g item fs else Inr False)"

fun filter_items :: "('a \<Rightarrow> string \<Rightarrow> 'v option) \<Rightarrow> 'a list \<Rightarrow> (string, 'v) pydict \<Rightarrow> exn + 'a list" where
  "filter_items g [] fs = Inr []"
| "filter_items g (item # items) fs =
     (case matches_filters g item fs of
        Inl e \<Rightarrow> Inl e
      | Inr keep \<Rightarrow>
          (case filter_items g items fs of
             Inl e \<Rightarrow> Inl e
           | Inr rest \<Rightarrow> Inr (if keep then item # rest else rest)))"

definition BaseService_list ::
  "('a, 'd, 'v) model_ops \<Rightarrow> (UUID, 'a) pydict \<Rightarrow> (string, 'v) pydict \<Rightarrow> exn + 'a list" where
  "BaseService_list ops storage filters =
     (let results = dict_values storage in
      if filters \<noteq> [] then filter_items (item_getattr ops) results filters else Inr results)"

definition BaseService_create ::
  "('a, 'd, 'v) model_ops \<Rightarrow> (UUID, 'a) pydict \<Rightarrow> ('a, 'd) create_data
     \<Rightarrow> exn + ('a \<times> (UUID, 'a) pydict)" where
  "BaseService_create ops storage data =
     (case (case data of FromDict d \<Rightarrow> model_class ops d | FromItem item \<Rightarrow> Inr item) of
        Inl e \<Rightarrow> Inl e
      | Inr item \<Rightarrow> Inr (item, dict_set storage (item_id ops item) item))"

definition BaseService_delete :: "(UUID, 'a) pydict \<Rightarrow> UUID \<Rightarrow> bool \<times> (UUID, 'a) pydict" where
  "BaseService_delete storage i =
     (if dict_contains storage i then (True, dict_del storage i) else (False, storage))"

definition BaseService_exists :: "(UUID, 'a) pydict \<Rightarrow> UUID \<Rightarrow> bool" where
  "BaseService_exists storage i = dict_contains storage i"

definition BaseService_count ::
  "('a, 'd, 'v) model_ops \<Rightarrow> (UUID, 'a) pydict \<Rightarrow> (string, 'v) pydict \<Rightarrow> exn + nat" where
  "BaseService_count ops storage filters =
     (case BaseService_list ops storage filters of
        Inl e \<Rightarrow> Inl e
      | Inr items \<Rightarrow> Inr (length items))"

text \<open>
  The storages that the service can reach: it starts empty and changes only through
  \<^verbatim>\<open>create\<close> and \<^verbatim>\<open>delete\<close>.
\<close>

inductive reachable_storage :: "('a, 'd, 'v) model_ops \<Rightarrow> (UUID, 'a) pydict \<Rightarrow> bool"
  for ops :: "('a, 'd, 'v) model_ops" where
  initial: "reachable_storage ops []"
| created: "reachable_storage ops s \<Longrightarrow> BaseService_create ops s data = Inr (item, s')
            \<Longrightarrow> reachable_storage ops s'"
| deleted: "reachable_storage ops s \<Longrightarrow> BaseService_delete s i = (b, s')
            \<Longrightarrow> reachable_storage ops s'"

text \<open>The items that a storage holds: the values that a lookup by some identifier returns.\<close>

definition stored_items :: "(UUID, 'a) pydict \<Rightarrow> 'a set" where
  "stored_items storage = {item. \<exists>i. BaseService_get storage i = Some item}"

text \<open>An item matches the filters when each named attribute exists and equals the value.\<close>

definition satisfies_filters :: "('a, 'd, 'v) model_ops \<Rightarrow> 'a \<Rightarrow> (string, 'v) pydict \<Rightarrow> bool" where
  "satisfies_filters ops item filters =
     (\<forall>(k, v) \<in> set filters. item_getattr ops item k = Some v)"

definition has_attributes :: "('a, 'd, 'v) model_ops \<Rightarrow> 'a \<Rightarrow> (string, 'v) pydict \<Rightarrow> bool" where
  "has_attributes ops item filters =
     (\<forall>(k, v) \<in> set filters. item_getattr ops item k \<noteq> None)"


section \<open>The MCP dispatcher (src/_data/user/ai/mcp)\<close>

text \<open>
  Values of type \<^verbatim>\<open>Any\<close> are of an arbitrary type \<open>'v\<close>; a \<^verbatim>\<open>Dict[str, Any]\<close> is an
  association list. The fields \<^verbatim>\<open>created_at\<close>, \<^verbatim>\<open>completed_at\<close> and the
  metadata of request and response are not read by the dispatcher and are left out.
\<close>

datatype MCPStatus = PENDING | PROCESSING | COMPLETED | FAILED

record 'v MCPResult =
  success :: bool
  data :: "(string, 'v) pydict option"
  error :: "string option"
  result_metadata :: "(string, string) pydict"

record 'v MCPRequest =
  request_id :: UUID
  operation :: string
  parameters :: "(string, 'v) pydict"
  request_context :: "(string, 'v) pydict"

record 'v MCPResponse =
  response_request_id :: UUID
  status :: MCPStatus
  result :: "'v MCPResult option"

text \<open>
  What a call of a handler does: it raises an exception, or returns an
  \<^verbatim>\<open>MCPResult\<close>, a dictionary, or another value.
\<close>

datatype 'v handler_outcome =
    Raises exn
  | ReturnsResult "'v MCPResult"
  | ReturnsDict "(string, 'v) pydict"
  | ReturnsOther 'v

text \<open>A handler receives the request's parameters and its context.\<close>

type_synonym 'v handler_fn = "(string, 'v) pydict \<Rightarrow> (string, 'v) pydict \<Rightarrow> 'v handler_outcome"

record 'v MCPTool =
  tool_name :: string
  tool_description :: string
  handler :: "'v handler_fn option"

text \<open>\<^verbatim>\<open>MCPToolRegistry\<close>: the class-level dictionary \<^verbatim>\<open>_tools\<close>.\<close>

type_synonym 'v tool_registry = "(string, 'v MCPTool) pydict"

definition register :: "'v tool_registry \<Rightarrow> 'v MCPTool \<Rightarrow> 'v handler_fn \<Rightarrow> 'v tool_registry" where
  "register tools tool func = dict_set tools (tool_name tool) (tool\<lparr>handler := Some func\<rparr>)"

definition get_tool :: "'v tool_registry \<Rightarrow> string \<Rightarrow> 'v MCPTool option" where
  "get_tool tools n = dict_get tools n"

text \<open>
  A request given as a dictionary: each key of \<^verbatim>\<open>MCPRequest\<close> may be absent.
  \<^verbatim>\<open>MCPRequest(**request_data)\<close> fails validation when the required key
  \<^verbatim>\<open>operation\<close> is absent; absent optional keys get their defaults, for the identifier
  a fresh UUID.
\<close>

record 'v request_dict =
  dict_request_id :: "UUID option"
  dict_operation :: "string option"
  dict_parameters :: "(string, 'v) pydict option"
  dict_context :: "(string, 'v) pydict option"

datatype 'v request_data = AsDict "'v request_dict" | AsRequest "'v MCPRequest"

definition MCPRequest_init :: "UUID \<Rightarrow> 'v request_dict \<Rightarrow> exn + 'v MCPRequest" where
  "MCPRequest_init fresh d =
     (case dict_operation d of
        None \<Rightarrow> Inl (Exn ''ValidationError'' ''operation: field required'')
      | Some op \<Rightarrow>
          Inr \<lparr>request_id = (case dict_request_id d of None \<Rightarrow> fresh | Some u \<Rightarrow> u),
               operation = op,
               parameters = (case dict_parameters d of None \<Rightarrow> [] | Some p \<Rightarrow> p),
               request_context = (case dict_context d of None \<Rightarrow> [] | Some c \<Rightarrow> c)\<rparr>)"

text \<open>
  \<^verbatim>\<open>tool.handler(**request.parameters, context=request.context)\<close>: a parameter named
  \<^verbatim>\<open>context\<close> collides with the keyword argument, a \<^verbatim>\<open>TypeError\<close>.
\<close>

definition call_handler :: "'v handler_fn \<Rightarrow> 'v MCPRequest \<Rightarrow> 'v handler_outcome" where
  "call_handler h req =
     (if dict_contains (parameters req) ''context''
      then Raises (Exn ''TypeError'' ''got multiple values for keyword argument context'')
      else h (parameters req) (request_context req))"

text \<open>
  The two outer \<^verbatim>\<open>except\<close> clauses read the local variable \<^verbatim>\<open>request\<close> in
  \<^verbatim>\<open>getattr(request, 'request_id', uuid4())\<close>. The variable is bound only once the
  first statement of the \<^verbatim>\<open>try\<close> block has completed: \<open>None\<close> is the unbound
  variable, and reading it raises \<^verbatim>\<open>UnboundLocalError\<close>.
\<close>

definition read_request_id :: "'v MCPRequest option \<Rightarrow> UUID \<Rightarrow> exn + UUID" where
  "read_request_id request fresh =
     (case request of
        None \<Rightarrow> Inl (Exn ''UnboundLocalError'' ''request'')
      | Some r \<Rightarrow> Inr (request_id r))"

definition outer_handler :: "'v MCPRequest option \<Rightarrow> UUID \<Rightarrow> exn \<Rightarrow> exn + 'v MCPResponse" where
  "outer_handler request fresh e =
     (case e of Exn cls msg \<Rightarrow>
        (case read_request_id request fresh of
           Inl e' \<Rightarrow> Inl e'
         | Inr rid \<Rightarrow>
             Inr \<lparr>response_request_id = rid, status = FAILED,
                  result = Some \<lparr>success = False, data = None,
                     error = Some ((if cls = ''ValidationError'' then ''Invalid request: ''
                                    else ''Internal server error: '') @ msg),
                     result_metadata = [(''error_type'', cls)]\<rparr>\<rparr>))"

definition process_request ::
  "'v tool_registry \<Rightarrow> UUID \<Rightarrow> 'v request_data \<Rightarrow> exn + 'v MCPResponse" where
  "process_request tools fresh rd =
     (case (case rd of AsRequest r \<Rightarrow> Inr r | AsDict d \<Rightarrow> MCPRequest_init fresh d) of
        Inl e \<Rightarrow> outer_handler None fresh e
      | Inr req \<Rightarrow>
          (case (case get_tool tools (operation req) of None \<Rightarrow> None | Some tool \<Rightarrow> handler tool) of
             None \<Rightarrow>
               outer_handler (Some req) fresh
                 (Exn ''ToolNotFoundError'' (''Unknown operation: '' @ operation req))
           | Some h \<Rightarrow>
               (case call_handler h req of
                  Raises (Exn cls msg) \<Rightarrow>
                    Inr \<lparr>response_request_id = request_id req, status = FAILED,
                         result = Some \<lparr>success = False, data = None, error = Some msg,
                                        result_metadata = [(''error_type'', cls)]\<rparr>\<rparr>
                | ReturnsResult r \<Rightarrow>
                    Inr \<lparr>response_request_id = request_id req, status = COMPLETED,
                         result = Some r\<rparr>
                | ReturnsDict d \<Rightarrow>
                    Inr \<lparr>response_request_id = request_id req, status = COMPLETED,
                         result = Some \<lparr>success = True, data = Some d, error = None,
                                        result_metadata = []\<rparr>\<rparr>
                | ReturnsOther v \<Rightarrow>
                    Inr \<lparr>response_request_id = request_id req, status = COMPLETED,
                         result = Some \<lparr>success = True, data = Some [(''result'', v)],
                                        error = None, result_metadata = []\<rparr>\<rparr>)))"


section \<open>Concrete inputs\<close>

text \<open>
  A percentage discount of ten percent, limited to one use in total and per user, valid
  from time 100 to time 200.
\<close>

definition example_discount :: discount where
  "example_discount =
     \<lparr>code = ''SAVE10'', description = None, discount_type = PERCENTAGE,
      discount_value = Fin 10, max_uses = Some 1, max_uses_per_user = Some 1, used_count = 0,
      start_date = Aware 100, end_date = Some (Aware 200), is_active = True,
      min_purchase_amount = None, created_at = Naive 0, updated_at = Naive 0,
      allowed_products = None, excluded_products = None, allowed_categories = None,
      excluded_categories = None, affiliate_id = None\<rparr>"

text \<open>A fixed discount of \<open>1E-40\<close>, without limits.\<close>

definition tiny_discount :: discount where
  "tiny_discount =
     example_discount\<lparr>code := ''TINY'', discount_type := FIXED_AMOUNT,
       discount_value := Fin (1 / 10 ^ 40), max_uses := None, max_uses_per_user := None\<rparr>"

text \<open>An amount of 32 digits, just below one: \<open>0.99999999999999999999999999999999\<close>.\<close>

definition almost_one :: rat where
  "almost_one = (10 ^ 32 - 1) / 10 ^ 32"

text \<open>
  An adapter that keeps the discounts and a log of the recorded uses. It counts the uses
  of a user in its log, and its \<^verbatim>\<open>record_usage\<close> adds to the log and to the count of
  the stored discount.
\<close>

record store =
  stored :: "discount list"
  uses :: "(string \<times> string option) list"

definition log_adapter :: "store storage_adapter" where
  "log_adapter =
     \<lparr>get_discount_by_code = (\<lambda>st c. Inr (find (\<lambda>d. code d = c) (stored st))),
      get_user_usage =
        Some (\<lambda>st c u. Inr (int (length (filter (\<lambda>entry. entry = (c, Some u)) (uses st))))),
      usage_recorder =
        (\<lambda>st c u.
           (None,
            st\<lparr>stored := map (\<lambda>d. if code d = c then d\<lparr>used_count := used_count d + 1\<rparr> else d)
                           (stored st),
               uses := (c, u) # uses st\<rparr>))\<rparr>"

text \<open>The same adapter without usage counts of its own.\<close>

definition plain_adapter :: "store storage_adapter" where
  "plain_adapter = log_adapter\<lparr>get_user_usage := None\<rparr>"

definition example_store :: store where
  "example_store = \<lparr>stored = [example_discount, tiny_discount], uses = []\<rparr>"

text \<open>The last day of January of a leap year, at noon, and a profile without payout date.\<close>

definition jan31 :: pydatetime where
  "jan31 = \<lparr>year = 2024, month = 1, day = 31, hour = 12, minute = 0, second = 0,
            microsecond = 0\<rparr>"

definition new_profile :: "PayoutSchedule \<Rightarrow> profile_values" where
  "new_profile s =
     \<lparr>total_commissions = Some (Fin 100), pending_payout = Some (Fin 20),
      lifetime_earnings = Some (Fin 0), next_payout_date = None, payout_schedule = Some s\<rparr>"

section \<open>Usage recording\<close>

text \<open>
  C2, as stated: recording a use twice, for the same discount and user, leaves the discount
  as recording it once does. It does not, with or without a user id: the second call
  counts again.
\<close>

theorem record_usage_not_idempotent:
  "used_count (snd (record_usage (snd (record_usage example_discount None 150)) None 150))
     \<noteq> used_count (snd (record_usage example_discount None 150))
   \<and> used_count (snd (record_usage (snd (record_usage example_discount (Some ''u1'') 150))
                        (Some ''u1'') 150))
     \<noteq> used_count (snd (record_usage example_discount (Some ''u1'') 150))"
  by (simp add: record_usage_def get_user_usage_count_def example_discount_def Let_def)

text \<open>
  C2, amended: every call of \<^verbatim>\<open>record_usage\<close> adds one to \<open>used_count\<close>, so two
  calls add two. Without a user id (\<^verbatim>\<open>None\<close> or empty) the call raises nothing and
  changes nothing else but the time stamp. Without a storage adapter
  \<^verbatim>\<open>_record_discount_usage\<close> is exactly this method.
\<close>

theorem record_usage_counts_each_call:
  "used_count (snd (record_usage d u now)) = used_count d + 1
   \<and> used_count (snd (record_usage (snd (record_usage d u now)) u now')) = used_count d + 2
   \<and> record_usage d None now
        = (None, d\<lparr>used_count := used_count d + 1, updated_at := Aware now\<rparr>)
   \<and> record_usage d (Some []) now = record_usage d None now
   \<and> svc_record_discount_usage None d u now
        = (fst (record_usage d u now), None, snd (record_usage d u now))"
  by (simp add: record_usage_def get_user_usage_count_def svc_record_discount_usage_def
        Let_def split: prod.splits)

section \<open>The MCP dispatcher\<close>

text \<open>
  C6: \<^verbatim>\<open>process_request\<close> answers a request that fails model validation with a FAILED
  response. The code does not: for a dictionary without \<^verbatim>\<open>operation\<close> the handler of
  the validation error reads the variable \<^verbatim>\<open>request\<close>, which was never bound, and
  \<^verbatim>\<open>UnboundLocalError\<close> leaves the function.
\<close>

theorem process_request_raises_on_invalid_request:
  "process_request tools fresh
     (AsDict \<lparr>dict_request_id = rid, dict_operation = None, dict_parameters = ps,
              dict_context = cx\<rparr>)
   = Inl (Exn ''UnboundLocalError'' ''request'')"
  by (simp add: process_request_def MCPRequest_init_def outer_handler_def read_request_id_def)


section \<open>The order of the validation checks\<close>

text \<open>Each named check is the condition that the code tests.\<close>

lemma verdict_Nil: "verdict d [] = Inr (True, Some d, ValidCode)"
  by (simp add: verdict_def)

lemma verdict_Cons:
  "verdict d (c # cs) =
     (case c of Pass \<Rightarrow> verdict d cs | Reject msg \<Rightarrow> Inr (False, Some d, msg) | Abort e \<Rightarrow> Inl e)"
  by (cases c) (simp_all add: verdict_def)

lemma verdict_if:
  "verdict d ((if b then Reject msg else Pass) # cs) =
     (if b then Inr (False, Some d, msg) else verdict d cs)"
  by (simp add: verdict_Cons)

lemma verdict_valid_iff:
  "verdict d cs = Inr (True, dd, msg) \<longleftrightarrow> list_all (\<lambda>c. c = Pass) cs \<and> dd = Some d \<and> msg = ValidCode"
proof (induction cs)
  case Nil
  show ?case by (auto simp add: verdict_Nil)
next
  case (Cons c cs)
  then show ?case by (cases c) (auto simp add: verdict_Cons)
qed

lemma amount_check_eq:
  "amount_check amount
     = (if amount \<noteq> None \<and> to_decimal (the amount) = None then Reject InvalidAmountFormat else Pass)"
  by (cases amount) (auto simp add: amount_check_def split: option.splits)

lemma active_check_eq:
  "active_check d = (if \<not> is_active d then Reject NoLongerActive else Pass)"
  by (simp add: active_check_def)

lemma total_limit_check_eq:
  "total_limit_check d
     = (if max_uses d \<noteq> None \<and> used_count d \<ge> the (max_uses d) then Reject UsageLimitReached else Pass)"
  by (cases "max_uses d") (simp_all add: total_limit_check_def)

lemma allowed_products_check_eq:
  "allowed_products_check d product_id
     = (if (allowed_products d \<noteq> None \<and> the (allowed_products d) \<noteq> [])
           \<and> (str_truthy product_id \<and> the product_id \<notin> set (the (allowed_products d)))
        then Reject NotValidForProduct else Pass)"
  by (cases "allowed_products d"; cases product_id) (simp_all add: allowed_products_check_def)

lemma excluded_products_check_eq:
  "excluded_products_check d product_id
     = (if excluded_products d \<noteq> None
           \<and> (product_id \<noteq> None \<and> the product_id \<in> set (the (excluded_products d)))
        then Reject NotValidForProduct else Pass)"
  by (cases "excluded_products d"; cases product_id) (simp_all add: excluded_products_check_def)

lemma allowed_categories_check_eq:
  "allowed_categories_check d category_id
     = (if (allowed_categories d \<noteq> None \<and> the (allowed_categories d) \<noteq> [])
           \<and> (\<not> str_truthy category_id \<or> the category_id \<notin> set (the (allowed_categories d)))
        then Reject NotValidForCategory else Pass)"
  by (cases "allowed_categories d"; cases category_id) (simp_all add: allowed_categories_check_def)

lemma excluded_categories_check_eq:
  "excluded_categories_check d category_id
     = (if excluded_categories d \<noteq> None
           \<and> (category_id \<noteq> None \<and> the category_id \<in> set (the (excluded_categories d)))
        then Reject NotValidForCategory else Pass)"
  by (cases "excluded_categories d"; cases category_id) (simp_all add: excluded_categories_check_def)

lemma affiliate_check_eq:
  "affiliate_check d aff_id
     = (if (affiliate_id d \<noteq> None \<and> id_truthy (the (affiliate_id d)))
           \<and> (\<not> str_truthy aff_id \<or> the aff_id \<noteq> py_str (the (affiliate_id d)))
        then Reject NotValidForAccount else Pass)"
  by (cases "affiliate_id d"; cases aff_id) (auto simp add: affiliate_check_def)

lemma scoping_as_verdict:
  "Inr (validate_scoping d product_id category_id aff_id)
     = verdict d [allowed_products_check d product_id, excluded_products_check d product_id,
         allowed_categories_check d category_id, excluded_categories_check d category_id,
         affiliate_check d aff_id]"
  unfolding validate_scoping_def allowed_products_check_eq excluded_products_check_eq
    allowed_categories_check_eq excluded_categories_check_eq affiliate_check_eq
    verdict_if verdict_Nil
  by (simp only: if_distrib [of Inr] cong: if_cong)


lemma from_dates_then:
  assumes "verdict d rest = Inr (validate_scoping d product_id category_id aff_id)"
  shows "validate_from_dates d now (case amount of None \<Rightarrow> None | Some a \<Rightarrow> to_decimal a)
           product_id category_id aff_id
         = verdict d (start_check d now # end_check d now # minimum_check d amount # rest)"
  by (auto simp add: validate_from_dates_def start_check_def end_check_def minimum_check_def
        verdict_Cons assms split: sum.splits option.splits)

lemma from_dates_as_verdict:
  "validate_from_dates d now (case amount of None \<Rightarrow> None | Some a \<Rightarrow> to_decimal a)
       product_id category_id aff_id
     = verdict d [start_check d now, end_check d now, minimum_check d amount,
         allowed_products_check d product_id, excluded_products_check d product_id,
         allowed_categories_check d category_id, excluded_categories_check d category_id,
         affiliate_check d aff_id]"
  by (rule from_dates_then) (rule scoping_as_verdict [symmetric])

lemma user_limit_check_eq:
  "user_limit_check svc d user_id
     = (if (user_id \<noteq> None \<and> id_truthy (the user_id))
           \<and> (max_uses_per_user d \<noteq> None \<and> the (max_uses_per_user d) \<noteq> 0)
        then (case svc_get_user_usage svc d (py_str (the user_id)) of
                Inl e \<Rightarrow> Abort e
              | Inr n \<Rightarrow> if n \<ge> the (max_uses_per_user d) then Reject UserLimitReached else Pass)
        else Pass)"
  by (cases user_id; cases "max_uses_per_user d")
     (auto simp add: user_limit_check_def split: sum.splits)

lemma verdict_fallible:
  "verdict d ((if b then (case r of Inl e \<Rightarrow> Abort e
                          | Inr n \<Rightarrow> if g n then Reject msg else Pass) else Pass) # cs)
     = (if b then (case r of Inl e \<Rightarrow> Inl e
                    | Inr n \<Rightarrow> if g n then Inr (False, Some d, msg) else verdict d cs)
        else verdict d cs)"
  by (cases r) (simp_all add: verdict_Cons)

lemma validate_then:
  assumes "svc_get_discount_by_code svc c = Inr (Some d)"
    and "verdict d rest
           = validate_from_dates d now (case amount of None \<Rightarrow> None | Some a \<Rightarrow> to_decimal a)
               product_id category_id aff_id"
  shows "validate_discount_code svc now c product_id category_id aff_id user_id amount
           = verdict d (amount_check amount # active_check d # total_limit_check d
               # user_limit_check svc d user_id # rest)"
  unfolding amount_check_eq active_check_eq total_limit_check_eq verdict_if
    user_limit_check_eq verdict_fallible assms(2) validate_discount_code_def assms(1) Let_def
  by (simp only: sum.case option.case)

lemma validate_as_verdict:
  assumes "svc_get_discount_by_code svc c = Inr (Some d)"
  shows "validate_discount_code svc now c product_id category_id aff_id user_id amount
           = verdict d (all_checks svc now d product_id category_id aff_id user_id amount)"
  unfolding all_checks_def claimed_checks_def
  by (rule validate_then [OF assms]) (rule from_dates_as_verdict [symmetric])

text \<open>
  C1, amended: for a stored code the checks run in this order: the amount converts to a
  decimal; the code is active; total usage limit; per-user usage limit; start date; end
  date; minimum purchase; allowed products; excluded products; allowed categories; excluded
  categories; affiliate. The first check that does not pass decides: the result is its
  rejection, or its exception where the check raises. The result is
  \<open>(True, discount, ValidCode)\<close> exactly when every check passes.
\<close>

theorem validate_follows_check_order:
  assumes "svc_get_discount_by_code svc c = Inr (Some d)"
  shows "validate_discount_code svc now c product_id category_id aff_id user_id amount
           = verdict d (all_checks svc now d product_id category_id aff_id user_id amount)
         \<and> (validate_discount_code svc now c product_id category_id aff_id user_id amount
                = Inr (True, Some d, ValidCode)
              \<longleftrightarrow> list_all (\<lambda>c. c = Pass)
                    (all_checks svc now d product_id category_id aff_id user_id amount))"
  by (simp add: validate_as_verdict [OF assms] verdict_valid_iff)

text \<open>
  C1, as stated: the order starts with the usage limits, and the message is that of the
  first failing check among usage limits, dates, minimum purchase, products, categories and
  affiliate. For an inactive code that has reached its usage limit the code answers
  "no longer active", not "usage limit".
\<close>

theorem validate_ignores_claimed_order:
  "validate_discount_code
      (Some (log_adapter,
             \<lparr>stored = [example_discount\<lparr>is_active := False, used_count := 1\<rparr>], uses = []\<rparr>))
      150 ''SAVE10'' None None None None None
     = Inr (False, Some (example_discount\<lparr>is_active := False, used_count := 1\<rparr>), NoLongerActive)
   \<and> verdict (example_discount\<lparr>is_active := False, used_count := 1\<rparr>)
       (claimed_checks
          (Some (log_adapter,
                 \<lparr>stored = [example_discount\<lparr>is_active := False, used_count := 1\<rparr>], uses = []\<rparr>))
          150 (example_discount\<lparr>is_active := False, used_count := 1\<rparr>)
          None None None None None)
     = Inr (False, Some (example_discount\<lparr>is_active := False, used_count := 1\<rparr>),
            UsageLimitReached)"
  by (simp add: validate_discount_code_def verdict_def claimed_checks_def
        svc_get_discount_by_code_def log_adapter_def example_discount_def
        total_limit_check_def)

text \<open>
  The example code in the example storage, for a user and an amount: validation finds it
  valid at time 150 and too early at time 50.
\<close>

lemma example_lookup:
  "svc_get_discount_by_code (Some (log_adapter, example_store)) ''SAVE10''
     = Inr (Some example_discount)"
  by (simp add: svc_get_discount_by_code_def log_adapter_def example_store_def
        example_discount_def)

lemma example_valid_at_150:
  "validate_discount_code (Some (log_adapter, example_store)) 150 ''SAVE10''
        None None None (Some (IdStr ''u1'')) (Some (IsDecimal (Fin 40)))
      = Inr (True, Some example_discount, ValidCode)"
  by (simp add: validate_discount_code_def validate_from_dates_def validate_scoping_def
        svc_get_discount_by_code_def svc_get_user_usage_def log_adapter_def example_store_def
        example_discount_def)

lemma example_early_at_50:
  "validate_discount_code (Some (log_adapter, example_store)) 50 ''SAVE10''
        None None None (Some (IdStr ''u1'')) (Some (IsDecimal (Fin 40)))
      = Inr (False, Some example_discount, NotYetValid)"
  by (simp add: validate_discount_code_def validate_from_dates_def validate_scoping_def
        svc_get_discount_by_code_def svc_get_user_usage_def log_adapter_def example_store_def
        example_discount_def)

text \<open>
  The hypothesis of C1 holds for the example code, and every check passes at time 150.
\<close>

theorem validate_follows_check_order_witness:
  "svc_get_discount_by_code (Some (log_adapter, example_store)) ''SAVE10''
     = Inr (Some example_discount)
   \<and> verdict example_discount
        (all_checks (Some (log_adapter, example_store)) 150 example_discount None None None
           (Some (IdStr ''u1'')) (Some (IsDecimal (Fin 40))))
      = Inr (True, Some example_discount, ValidCode)
   \<and> list_all (\<lambda>c. c = Pass)
        (all_checks (Some (log_adapter, example_store)) 150 example_discount None None None
           (Some (IdStr ''u1'')) (Some (IsDecimal (Fin 40))))"
  using validate_follows_check_order [OF example_lookup, of 150 None None None
      "Some (IdStr ''u1'')" "Some (IsDecimal (Fin 40))"]
    example_lookup example_valid_at_150
  by simp

section \<open>The model's own check and the service's validation\<close>

text \<open>
  C10: for a user id and a discount with a per-user limit, \<^verbatim>\<open>can_user_use_code\<close>
  reads the per-user count of the discount and raises \<^verbatim>\<open>AttributeError\<close>; it returns
  nothing, while the validation of the service, which asks the storage for the count,
  passes the active, usage-limit and date checks.
\<close>

theorem can_user_use_code_raises:
  "can_user_use_code example_discount (Some ''u1'') 150
     = Inl (Exn ''AttributeError'' ''FieldInfo object has no attribute get'')
   \<and> validate_discount_code (Some (log_adapter, example_store)) 150 ''SAVE10''
        None None None (Some (IdStr ''u1'')) None
      = Inr (True, Some example_discount, ValidCode)"
  by (simp add: can_user_use_code_def get_user_usage_count_def
        validate_discount_code_def validate_from_dates_def validate_scoping_def
        svc_get_discount_by_code_def svc_get_user_usage_def log_adapter_def example_store_def
        example_discount_def)

section \<open>Rounding of decimal results\<close>

text \<open>
  The digit count brackets a positive integer between two powers of ten, and the adjusted
  exponent brackets a number that is not zero.
\<close>

lemma ndigits_pos: "1 \<le> ndigits n"
proof (induction n rule: ndigits.induct)
  case (1 n)
  show ?case
  proof (cases "n < 10")
    case True then show ?thesis by (simp add: ndigits.simps)
  next
    case False
    with 1 have "1 \<le> ndigits (n div 10)" by simp
    with False show ?thesis by (subst ndigits.simps) simp
  qed
qed

lemma ndigits_bounds:
  "0 < n \<Longrightarrow> 10 ^ nat (ndigits n - 1) \<le> n \<and> n < 10 ^ nat (ndigits n)"
proof (induction n rule: ndigits.induct)
  case (1 n)
  show ?case
  proof (cases "n < 10")
    case True
    with 1(2) show ?thesis by (simp add: ndigits.simps)
  next
    case False
    let ?m = "n div 10"
    let ?d = "ndigits ?m"
    from False have m: "0 < ?m" by simp
    from 1(1) [OF False m] have lo: "10 ^ nat (?d - 1) \<le> ?m" and hi: "?m < 10 ^ nat ?d" by simp_all
    have d: "1 \<le> ?d" by (rule ndigits_pos)
    from False have nd: "ndigits n = 1 + ?d" by (subst ndigits.simps) simp
    have "10 * ?m \<le> n" by simp
    moreover have "10 * 10 ^ nat (?d - 1) \<le> 10 * ?m" using lo by simp
    moreover have "(10::int) * 10 ^ nat (?d - 1) = 10 ^ nat ?d"
      using d by (metis Suc_nat_eq_nat_zadd1 add.commute diff_add_cancel diff_ge_0_iff_ge power_Suc)
    ultimately have a: "10 ^ nat ?d \<le> n" by linarith
    have "n < 10 * (?m + 1)" by simp
    moreover from hi have "?m + 1 \<le> 10 ^ nat ?d" by simp
    then have "10 * (?m + 1) \<le> 10 * 10 ^ nat ?d" by simp
    moreover have "(10::int) * 10 ^ nat ?d = 10 ^ nat (1 + ?d)"
      using d by (simp add: nat_add_distrib)
    ultimately have b: "n < 10 ^ nat (1 + ?d)" by linarith
    from a b nd show ?thesis by simp
  qed
qed


lemma powi_nat: "0 \<le> d \<Longrightarrow> (10::rat) powi d = of_int (10 ^ nat d)"
  by (simp add: power_int_def)

lemma ndigits_bounds_rat:
  assumes "0 < n"
  shows "(10::rat) powi (ndigits n - 1) \<le> of_int n" and "(of_int n :: rat) < 10 powi ndigits n"
proof -
  from ndigits_bounds [OF assms] have lo: "10 ^ nat (ndigits n - 1) \<le> n"
    and hi: "n < 10 ^ nat (ndigits n)" by simp_all
  have d: "1 \<le> ndigits n" by (rule ndigits_pos)
  from lo have "(of_int (10 ^ nat (ndigits n - 1)) :: rat) \<le> of_int n" by (simp only: of_int_le_iff)
  with d show "(10::rat) powi (ndigits n - 1) \<le> of_int n" by (simp add: powi_nat)
  from hi have "(of_int n :: rat) < of_int (10 ^ nat (ndigits n))" by (simp only: of_int_less_iff)
  with d show "(of_int n :: rat) < 10 powi ndigits n" by (simp add: powi_nat)
qed

lemma adjusted_bounds:
  assumes "x \<noteq> 0"
  shows "10 powi adjusted x \<le> \<bar>x\<bar>" and "\<bar>x\<bar> < 10 powi (adjusted x + 1)"
proof -
  obtain p q where pq: "quotient_of \<bar>x\<bar> = (p, q)" by (cases "quotient_of \<bar>x\<bar>")
  from quotient_of_denom_pos [OF pq] have q: "0 < q" .
  from quotient_of_div [OF pq] have x: "\<bar>x\<bar> = of_int p / of_int q" .
  from assms have xpos: "0 < \<bar>x\<bar>" by simp
  with x q have p: "0 < p" by (simp add: zero_less_divide_iff)
  let ?dp = "ndigits p" and ?dq = "ndigits q"
  note bp = ndigits_bounds_rat [OF p] and bq = ndigits_bounds_rat [OF q]
  have qr: "(0::rat) < of_int q" using q by simp
  have pr: "(0::rat) < of_int p" using p by simp
  have ten: "\<And>k. (0::rat) < 10 powi k" by simp
  have up: "\<bar>x\<bar> < 10 powi (?dp - ?dq + 1)"
  proof -
    have "of_int p / of_int q \<le> of_int p / (10 powi (?dq - 1) :: rat)"
      using bq(1) pr qr ten [of "?dq - 1"] by (intro divide_left_mono) (simp_all add: q)
    also have "\<dots> < 10 powi ?dp / 10 powi (?dq - 1)"
      using bp(2) ten [of "?dq - 1"] by (simp add: divide_strict_right_mono)
    also have "\<dots> = 10 powi (?dp - (?dq - 1))" by (simp add: power_int_diff)
    finally show ?thesis using x by (simp add: algebra_simps)
  qed
  have lo: "10 powi (?dp - ?dq - 1) \<le> \<bar>x\<bar>"
  proof -
    have "(10::rat) powi (?dp - ?dq - 1) = 10 powi (?dp - 1) / 10 powi ?dq"
      by (simp add: power_int_diff [symmetric] algebra_simps)
    also have "\<dots> \<le> of_int p / 10 powi ?dq"
      using bp(1) ten [of ?dq] by (simp add: divide_right_mono)
    also have "\<dots> \<le> of_int p / of_int q"
      using bq(2) pr qr ten [of ?dq] by (intro divide_left_mono) (simp_all add: q)
    finally show ?thesis using x by simp
  qed
  show "10 powi adjusted x \<le> \<bar>x\<bar>"
    using lo by (simp add: adjusted_def pq Let_def)
  show "\<bar>x\<bar> < 10 powi (adjusted x + 1)"
    using up by (auto simp add: adjusted_def pq Let_def not_le)
qed


lemma adjusted_mono:
  assumes "0 < z" "z \<le> x"
  shows "adjusted z \<le> adjusted x"
proof (rule ccontr)
  assume "\<not> adjusted z \<le> adjusted x"
  then have "adjusted x + 1 \<le> adjusted z" by simp
  then have "(10::rat) powi (adjusted x + 1) \<le> 10 powi adjusted z"
    by (intro power_int_increasing) simp_all
  also have "\<dots> \<le> \<bar>z\<bar>" using assms by (intro adjusted_bounds) simp
  also have "\<dots> \<le> \<bar>x\<bar>" using assms by simp
  also have "\<dots> < 10 powi (adjusted x + 1)" using assms by (intro adjusted_bounds) simp
  finally show False by simp
qed

lemma round_half_even_le:
  assumes "y \<le> of_int n"
  shows "round_half_even y \<le> n"
proof -
  from assms have f: "\<lfloor>y\<rfloor> \<le> n" by (simp add: floor_le_iff)
  show ?thesis
  proof (cases "\<lfloor>y\<rfloor> = n")
    case True
    with assms have "y - of_int \<lfloor>y\<rfloor> \<le> 0" by simp
    then show ?thesis using True by (simp add: round_half_even_def Let_def)
  next
    case False
    with f have "\<lfloor>y\<rfloor> + 1 \<le> n" by simp
    then show ?thesis by (simp add: round_half_even_def Let_def)
  qed
qed

lemma round_half_even_nonneg: "0 \<le> y \<Longrightarrow> 0 \<le> round_half_even y"
  by (simp add: round_half_even_def Let_def)

lemma round_half_even_nonpos: "y \<le> 0 \<Longrightarrow> round_half_even y \<le> 0"
  using round_half_even_le [of y 0] by simp

lemma round_half_even_of_int: "round_half_even (of_int n) = n"
  by (simp add: round_half_even_def Let_def)

lemma quantize_nonneg: "0 \<le> x \<Longrightarrow> 0 \<le> quantize q x"
  by (simp add: quantize_def round_half_even_nonneg)

lemma quantize_nonpos: "x \<le> 0 \<Longrightarrow> quantize q x \<le> 0"
  by (simp add: quantize_def round_half_even_nonpos mult_le_0_iff divide_le_0_iff)

lemma quantize_le:
  assumes "z \<le> of_int n * 10 powi q"
  shows "quantize q z \<le> of_int n * 10 powi q"
proof -
  have ten: "(0::rat) < 10 powi q" by simp
  from assms ten have "z / 10 powi q \<le> of_int n" by (simp add: pos_divide_le_eq)
  then have "round_half_even (z / 10 powi q) \<le> n" by (rule round_half_even_le)
  then have "(of_int (round_half_even (z / 10 powi q)) :: rat) \<le> of_int n" by simp
  with ten show ?thesis unfolding quantize_def by (simp add: mult_right_mono)
qed

lemma context_fix_sign:
  assumes "context_fix y = Inr (Fin r)"
  shows "(0 \<le> y \<longrightarrow> 0 \<le> r) \<and> (y \<le> 0 \<longrightarrow> r \<le> 0)"
  using assms
  by (auto simp add: context_fix_def Let_def quantize_nonneg quantize_nonpos split: if_splits)

lemma context_fix_upper:
  assumes x: "context_fix x = Inr (Fin x)" and "0 \<le> x" and zx: "z \<le> x"
    and z: "context_fix z = Inr (Fin r)"
  shows "r \<le> x"
proof (cases "0 < z")
  case False
  with context_fix_sign [OF z] have "r \<le> 0" by simp
  with \<open>0 \<le> x\<close> show ?thesis by simp
next
  case True
  with zx have xpos: "0 < x" by simp
  let ?qx = "max (adjusted x - (prec - 1)) Etiny"
  let ?qz = "max (adjusted z - (prec - 1)) Etiny"
  from x xpos have qx: "quantize ?qx x = x"
    by (auto simp add: context_fix_def Let_def split: if_splits)
  from z True have qz: "r = quantize ?qz z"
    by (auto simp add: context_fix_def Let_def split: if_splits)
  from adjusted_mono [OF True zx] have le: "?qz \<le> ?qx" by simp
  define n where "n = round_half_even (x / 10 powi ?qx)"
  from qx have xn: "x = of_int n * 10 powi ?qx" by (simp add: quantize_def n_def)
  have "(10::rat) powi ?qx = 10 powi (?qx - ?qz) * 10 powi ?qz"
    by (simp add: power_int_add [symmetric])
  also have "(10::rat) powi (?qx - ?qz) = of_int (10 ^ nat (?qx - ?qz))"
    using le by (intro powi_nat) simp
  finally have "x = of_int (n * 10 ^ nat (?qx - ?qz)) * 10 powi ?qz"
    using xn by simp
  with zx have "z \<le> of_int (n * 10 ^ nat (?qx - ?qz)) * 10 powi ?qz" by simp
  from quantize_le [OF this] qz \<open>x = of_int (n * 10 ^ nat (?qx - ?qz)) * 10 powi ?qz\<close>
  show ?thesis by simp
qed

text \<open>
  A number of at most 28 digits with an exponent in range is left as it is.
\<close>

lemma quantize_exact:
  assumes "q \<le> e"
  shows "quantize q (of_int c * 10 powi e) = of_int c * 10 powi e"
proof -
  have ten: "(10::rat) \<noteq> 0" by simp
  have split: "(10::rat) powi e = 10 powi (e - q) * 10 powi q"
    using power_int_add [of "10::rat" "e - q" q] by simp
  have "of_int c * (10::rat) powi e / 10 powi q = of_int c * 10 powi (e - q)"
    by (simp add: split)
  also have "\<dots> = of_int (c * 10 ^ nat (e - q))"
    using assms by (simp add: powi_nat)
  finally have "round_half_even (of_int c * 10 powi e / 10 powi q) = c * 10 ^ nat (e - q)"
    by (simp only: round_half_even_of_int)
  then have "quantize q (of_int c * 10 powi e) = of_int (c * 10 ^ nat (e - q)) * 10 powi q"
    by (simp only: quantize_def)
  also have "\<dots> = of_int c * (10 powi (e - q) * 10 powi q)"
    using assms by (simp add: powi_nat)
  finally show ?thesis by (simp only: split [symmetric])
qed

lemma context_fix_exact:
  assumes x: "x = of_int c * 10 powi e" and c: "\<bar>c\<bar> < 10 ^ 28"
    and lo: "Etiny \<le> e" and hi: "e + 27 \<le> Emax"
  shows "context_fix x = Inr (Fin x)"
proof (cases "x = 0")
  case True
  then show ?thesis by (simp add: context_fix_def)
next
  case False
  have "\<bar>x\<bar> = of_int \<bar>c\<bar> * 10 powi e" by (simp add: x abs_mult)
  also have "\<dots> < of_int (10 ^ 28) * 10 powi e"
  proof (rule mult_strict_right_mono)
    from c show "(of_int \<bar>c\<bar> :: rat) < of_int (10 ^ 28)" by (simp only: of_int_less_iff)
    show "(0::rat) < 10 powi e" by simp
  qed
  also have "\<dots> = 10 powi (e + 28)"
    using power_int_add [of "10::rat" e 28] by simp
  finally have up: "\<bar>x\<bar> < 10 powi (e + 28)" .
  have adj: "adjusted x < e + 28"
  proof (rule ccontr)
    assume "\<not> adjusted x < e + 28"
    then have "(10::rat) powi (e + 28) \<le> 10 powi adjusted x"
      by (intro power_int_increasing) simp_all
    with adjusted_bounds(1) [OF False] up show False by simp
  qed
  let ?q = "max (adjusted x - (prec - 1)) Etiny"
  from adj lo have "?q \<le> e" by (simp add: prec_def)
  from quantize_exact [OF this, of c] have "quantize ?q x = x" by (simp add: x)
  moreover from adj hi have "\<not> adjusted x > Emax" by simp
  ultimately show ?thesis using False by (simp add: context_fix_def Let_def)
qed

subsection \<open>Lemmas on \<^verbatim>\<open>apply_discount\<close>\<close>

text \<open>
  Arithmetic on finite decimals is the exact operation followed by the fitting.
\<close>

lemma context_fix_Fin: "context_fix y = Inr r \<Longrightarrow> \<exists>z. r = Fin z"
  by (auto simp add: context_fix_def Let_def split: if_splits)

lemma dec_mul_Fin [simp]: "dec_mul (Fin x) (Fin y) = context_fix (x * y)"
  by (simp add: dec_mul_def check_nans_def)

lemma dec_div_Fin [simp]: "y \<noteq> 0 \<Longrightarrow> dec_div (Fin x) (Fin y) = context_fix (x / y)"
  by (simp add: dec_div_def check_nans_def)

lemma dec_sub_Fin [simp]: "dec_sub (Fin x) (Fin y) = context_fix (x - y)"
  by (simp add: dec_sub_def check_nans_def)

lemma dec_lt_Fin [simp]: "dec_lt (Fin x) (Fin y) = Inr (x < y)"
  by (simp add: dec_lt_def)

lemma dec_gt_Fin [simp]: "dec_gt (Fin x) (Fin y) = Inr (y < x)"
  by (simp add: dec_gt_def)

text \<open>
  The discount that validation returns is the stored one, and a valid result carries a
  discount.
\<close>

lemma validate_returns_stored:
  assumes "validate_discount_code svc now c p cat af uid amount = Inr (ok, Some d, msg)"
  shows "svc_get_discount_by_code svc c = Inr (Some d)"
proof (cases "svc_get_discount_by_code svc c")
  case (Inl e)
  with assms show ?thesis by (simp add: validate_discount_code_def)
next
  case (Inr found)
  show ?thesis
  proof (cases found)
    case None
    with Inr assms show ?thesis by (simp add: validate_discount_code_def)
  next
    case (Some d')
    with Inr have l: "svc_get_discount_by_code svc c = Inr (Some d')" by simp
    from validate_as_verdict [OF l] assms
    have "verdict d' (all_checks svc now d' p cat af uid amount) = Inr (ok, Some d, msg)" by simp
    then have "d' = d" by (simp add: verdict_def split: check_outcome.splits)
    with l show ?thesis by simp
  qed
qed

lemma validate_valid_has_discount:
  assumes "validate_discount_code svc now c p cat af uid amount = Inr (True, dd, msg)"
  shows "\<exists>d. dd = Some d"
proof (cases "svc_get_discount_by_code svc c")
  case (Inl e)
  with assms show ?thesis by (simp add: validate_discount_code_def)
next
  case (Inr found)
  show ?thesis
  proof (cases found)
    case None
    with Inr assms show ?thesis by (simp add: validate_discount_code_def)
  next
    case (Some d')
    with Inr have l: "svc_get_discount_by_code svc c = Inr (Some d')" by simp
    from validate_as_verdict [OF l] assms
    have "verdict d' (all_checks svc now d' p cat af uid amount) = Inr (True, dd, msg)" by simp
    then show ?thesis by (auto simp add: verdict_def split: check_outcome.splits)
  qed
qed

text \<open>
  A successful call validated the converted amount and computed the new amount from the
  discount that validation returned.
\<close>

lemma apply_discount_success:
  assumes "apply_discount svc now c amount uid p cat af = (Inr (True, r, dd, msg), svc')"
  shows "\<exists>a d m. to_decimal amount = Some a
           \<and> validate_discount_code svc now c p cat af uid (Some (IsDecimal a))
               = Inr (True, Some d, m)
           \<and> new_amount d a = Inr r"
  using assms
  by (auto simp add: apply_discount_def
        split: option.splits sum.splits prod.splits if_splits)

text \<open>
  The new amount is never below zero. For an amount that is not negative and has at most
  28 digits, and a discount value that is not negative, it is not above the amount.
\<close>

lemma new_amount_nonneg:
  assumes "new_amount d a = Inr n"
  shows "dec_less (Fin 0) n \<or> n = Fin 0"
proof -
  from assms obtain m positive where "dec_gt m (Fin 0) = Inr positive"
    and "n = (if positive then m else Fin 0)"
    by (auto simp add: new_amount_def split: sum.splits)
  then show ?thesis by (auto simp add: dec_gt_def dec_lt_def split: if_splits)
qed

lemma new_amount_upper:
  assumes v: "discount_value d = Fin v" and vpos: "0 \<le> v"
    and x: "0 \<le> x" and fits: "context_fix x = Inr (Fin x)"
    and n: "new_amount d (Fin x) = Inr n"
  shows "\<exists>y. n = Fin y \<and> 0 \<le> y \<and> y \<le> x"
proof -
  have step: "\<exists>y. n = Fin y \<and> 0 \<le> y \<and> y \<le> x"
    if m: "0 \<le> m" and sub: "dec_sub (Fin x) (Fin m) = Inr k"
      and res: "dec_gt k (Fin 0) = Inr positive" "n = (if positive then k else Fin 0)"
    for m k positive
  proof -
    from sub have k: "context_fix (x - m) = Inr k" by simp
    from context_fix_Fin [OF k] obtain z where z: "k = Fin z" by blast
    from m have "x - m \<le> x" by simp
    from context_fix_upper [OF fits x this] k z have "z \<le> x" by simp
    with res z x show ?thesis by (auto split: if_splits)
  qed
  show ?thesis
  proof (cases "discount_type d = PERCENTAGE")
    case True
    from n True v obtain pr q k positive where
      pr: "context_fix (x * v) = Inr pr" and q: "dec_div pr (Fin 100) = Inr q"
      and sub: "dec_sub (Fin x) q = Inr k"
      and res: "dec_gt k (Fin 0) = Inr positive" "n = (if positive then k else Fin 0)"
      by (auto simp add: new_amount_def split: sum.splits)
    from context_fix_Fin [OF pr] obtain pv where pv: "pr = Fin pv" by blast
    from context_fix_sign [of "x * v" pv] pr pv x vpos have pvpos: "0 \<le> pv" by simp
    from q pv have q': "context_fix (pv / 100) = Inr q" by simp
    from context_fix_Fin [OF q'] obtain qv where qv: "q = Fin qv" by blast
    from context_fix_sign [of "pv / 100" qv] q' qv pvpos have "0 \<le> qv" by simp
    from step [OF this] sub qv res show ?thesis by simp
  next
    case False
    from n False obtain k positive where
      sub0: "dec_sub (Fin x) (if x < v then Fin x else discount_value d) = Inr k"
      and res: "dec_gt k (Fin 0) = Inr positive" "n = (if positive then k else Fin 0)"
      by (auto simp add: new_amount_def v split: sum.splits)
    from sub0 have sub: "dec_sub (Fin x) (Fin (if x < v then x else v)) = Inr k"
      by (simp add: v split: if_splits)
    have "0 \<le> (if x < v then x else v)" using x vpos by simp
    from step [OF this sub res] show ?thesis .
  qed
qed

text \<open>
  When no step needs rounding the new amount is the exact one.
\<close>

lemma new_amount_exact:
  assumes "discount_value d = Fin v" and "exact_steps (discount_type d) v x"
  shows "new_amount d (Fin x) = Inr (Fin (exact_new_amount (discount_type d) v x))"
proof (cases "discount_type d = PERCENTAGE")
  case True
  with assms(2) have s: "context_fix (x * v) = Inr (Fin (x * v))"
    "context_fix (x * v / 100) = Inr (Fin (x * v / 100))"
    "context_fix (x - x * v / 100) = Inr (Fin (x - x * v / 100))"
    by (simp_all add: exact_steps_def)
  from True assms(1) show ?thesis
    by (simp add: new_amount_def exact_new_amount_def s max_def)
next
  case False
  with assms(2) have s: "context_fix (x - min v x) = Inr (Fin (x - min v x))"
    by (simp add: exact_steps_def)
  show ?thesis
  proof (cases "x < v")
    case True
    with s have "context_fix (x - x) = Inr (Fin (x - x))" by (simp add: min_def)
    with True False assms(1) show ?thesis
      by (simp add: new_amount_def exact_new_amount_def)
  next
    case nless: False
    with s have "context_fix (x - v) = Inr (Fin (x - v))" by (simp add: min_def)
    with nless False assms(1) show ?thesis
      by (simp add: new_amount_def exact_new_amount_def max_def min_def)
  qed
qed

text \<open>
  The example discount on the amounts 40 and -5, and the tiny discount on an amount of 32
  digits.
\<close>

lemma fix_40: "context_fix 40 = Inr (Fin 40)"
  using context_fix_exact [of 40 40 0] by (simp add: Etiny_def Emax_def)

lemma fix_400: "context_fix 400 = Inr (Fin 400)"
  using context_fix_exact [of 400 400 0] by (simp add: Etiny_def Emax_def)

lemma fix_4: "context_fix 4 = Inr (Fin 4)"
  using context_fix_exact [of 4 4 0] by (simp add: Etiny_def Emax_def)

lemma fix_36: "context_fix 36 = Inr (Fin 36)"
  using context_fix_exact [of 36 36 0] by (simp add: Etiny_def Emax_def)

lemma fix_m50: "context_fix (- 50) = Inr (Fin (- 50))"
  using context_fix_exact [of "- 50" "- 50" 0] by (simp add: Etiny_def Emax_def)

lemma fix_m_half: "context_fix (- (1 / 2)) = Inr (Fin (- (1 / 2)))"
  using context_fix_exact [of "- (1 / 2)" "- 5" "- 1"] by (simp add: Etiny_def Emax_def)

lemma fix_m_9_half: "context_fix (- (9 / 2)) = Inr (Fin (- (9 / 2)))"
  using context_fix_exact [of "- (9 / 2)" "- 45" "- 1"] by (simp add: Etiny_def Emax_def)

lemma example_valid: "BaseDiscount_valid example_discount"
  by (simp add: BaseDiscount_valid_def example_discount_def code_matches_def code_char_ok_def
        validate_discount_value_def validate_dates_def)

lemma example_new_amount_40: "new_amount example_discount (Fin 40) = Inr (Fin 36)"
  by (simp add: new_amount_def example_discount_def fix_400 fix_4 fix_36)

lemma example_new_amount_m5: "new_amount example_discount (Fin (- 5)) = Inr (Fin 0)"
  by (simp add: new_amount_def example_discount_def fix_m50 fix_m_half fix_m_9_half)

lemma example_exact_steps: "exact_steps PERCENTAGE 10 40"
  by (simp add: exact_steps_def fix_400 fix_4 fix_36)

lemma example_applied_at_150:
  "apply_discount (Some (log_adapter, example_store)) 150 ''SAVE10''
        (IsDecimal (Fin 40)) (Some (IdStr ''u1'')) None None None
     = (Inr (True, Fin 36, Some example_discount, Applied),
        Some (log_adapter,
          \<lparr>stored = [example_discount\<lparr>used_count := 1\<rparr>, tiny_discount],
           uses = [(''SAVE10'', Some ''u1'')]\<rparr>))"
proof -
  have "svc_record_discount_usage (Some (log_adapter, example_store)) example_discount
          (Some ''u1'') 150
        = (None,
           Some (log_adapter,
             \<lparr>stored = [example_discount\<lparr>used_count := 1\<rparr>, tiny_discount],
              uses = [(''SAVE10'', Some ''u1'')]\<rparr>),
           example_discount)"
    by (simp add: svc_record_discount_usage_def log_adapter_def example_store_def
          example_discount_def tiny_discount_def)
  then show ?thesis
    by (simp add: apply_discount_def example_valid_at_150 example_new_amount_40)
qed

lemma fix_tiny: "context_fix (almost_one - 1 / 10 ^ 40) = Inr (Fin 1)"
  by code_simp

lemma tiny_new_amount: "new_amount tiny_discount (Fin almost_one) = Inr (Fin 1)"
proof -
  have "\<not> almost_one < 1 / 10 ^ 40" by (simp add: almost_one_def)
  then show ?thesis
    using fix_tiny
    by (simp only: new_amount_def tiny_discount_def example_discount_def discount.simps
          dec_lt_Fin dec_sub_Fin dec_gt_Fin sum.case if_False DiscountType.distinct)
      simp
qed

subsection \<open>C4: checks, then arithmetic\<close>




subsection \<open>C8: bounds of the discounted amount\<close>

text \<open>
  C8, amended: the amount that a successful \<^verbatim>\<open>apply_discount\<close> returns is zero or
  above. It is at most the original amount when that amount is not negative and has at
  most 28 digits (the arithmetic settings leave it as it is) and the stored discount
  passed the validation of its model, which makes its value positive.
\<close>

theorem apply_discount_amount_bounds:
  assumes "apply_discount svc now c amount uid p cat af = (Inr (True, r, dd, msg), svc')"
  shows "(dec_less (Fin 0) r \<or> r = Fin 0)
         \<and> (\<forall>x d. to_decimal amount = Some (Fin x) \<and> 0 \<le> x \<and> context_fix x = Inr (Fin x)
                   \<and> svc_get_discount_by_code svc c = Inr (Some d) \<and> BaseDiscount_valid d
                 \<longrightarrow> (\<exists>y. r = Fin y \<and> 0 \<le> y \<and> y \<le> x))"
proof -
  from apply_discount_success [OF assms] obtain a d0 m where
    a: "to_decimal amount = Some a"
    and v: "validate_discount_code svc now c p cat af uid (Some (IsDecimal a))
              = Inr (True, Some d0, m)"
    and n: "new_amount d0 a = Inr r"
    by blast
  have lower: "dec_less (Fin 0) r \<or> r = Fin 0" by (rule new_amount_nonneg [OF n])
  have upper: "\<exists>y. r = Fin y \<and> 0 \<le> y \<and> y \<le> x"
    if h: "to_decimal amount = Some (Fin x)" "0 \<le> x" "context_fix x = Inr (Fin x)"
      "svc_get_discount_by_code svc c = Inr (Some d)" "BaseDiscount_valid d" for x d
  proof -
    from validate_returns_stored [OF v] h(4) have dd: "d0 = d" by simp
    from h(5) obtain w where w: "discount_value d = Fin w" "0 \<le> w"
      by (cases "discount_value d") (auto simp add: BaseDiscount_valid_def)
    from a h(1) have "a = Fin x" by simp
    with n dd have "new_amount d (Fin x) = Inr r" by simp
    from new_amount_upper [OF w h(2,3) this] show ?thesis .
  qed
  from lower upper show ?thesis by blast
qed

text \<open>
  C8, as stated: the result is between zero and the original amount. For the amount -5
  the example code is applied and the result is 0, which is above the amount.
\<close>

theorem apply_discount_negative_amount:
  "fst (apply_discount (Some (log_adapter, example_store)) 150 ''SAVE10''
        (IsDecimal (Fin (- 5))) None None None None)
     = Inr (True, Fin 0, Some example_discount, Applied)
   \<and> dec_less (Fin (- 5)) (Fin 0)"
proof -
  have "validate_discount_code (Some (log_adapter, example_store)) 150 ''SAVE10''
        None None None None (Some (IsDecimal (Fin (- 5))))
      = Inr (True, Some example_discount, ValidCode)"
    by (simp add: validate_discount_code_def validate_from_dates_def validate_scoping_def
        svc_get_discount_by_code_def svc_get_user_usage_def log_adapter_def example_store_def
        example_discount_def)
  moreover obtain st where
    "svc_record_discount_usage (Some (log_adapter, example_store)) example_discount None 150
       = (None, st, example_discount)"
    by (simp add: svc_record_discount_usage_def log_adapter_def)
  ultimately show ?thesis
    by (simp add: apply_discount_def example_new_amount_m5)
qed

text \<open>
  The hypotheses of C8 hold for the example code and the amount 40 at time 150: the
  result 36 is above zero and not above 40.
\<close>

theorem apply_discount_amount_bounds_witness:
  "apply_discount (Some (log_adapter, example_store)) 150 ''SAVE10''
        (IsDecimal (Fin 40)) (Some (IdStr ''u1'')) None None None
     = (Inr (True, Fin 36, Some example_discount, Applied),
        Some (log_adapter,
          \<lparr>stored = [example_discount\<lparr>used_count := 1\<rparr>, tiny_discount],
           uses = [(''SAVE10'', Some ''u1'')]\<rparr>))
   \<and> to_decimal (IsDecimal (Fin 40)) = Some (Fin 40) \<and> (0::rat) \<le> 40
   \<and> context_fix 40 = Inr (Fin 40)
   \<and> svc_get_discount_by_code (Some (log_adapter, example_store)) ''SAVE10''
        = Inr (Some example_discount)
   \<and> BaseDiscount_valid example_discount
   \<and> dec_less (Fin 0) (Fin 36) \<and> \<not> dec_less (Fin 40) (Fin 36)"
  using apply_discount_amount_bounds [OF example_applied_at_150]
    example_applied_at_150 fix_40 example_lookup example_valid
  by simp

subsection \<open>C9: a rejected call leaves the storage as it is\<close>

text \<open>
  C9, amended: when \<^verbatim>\<open>apply_discount\<close> returns failure with a message other than
  "Error applying discount", the storage is unchanged, so no usage is recorded, and the
  discount returned is the stored one. When the amount does not convert to a decimal the
  returned amount is zero and the message is that of the amount format; otherwise the
  returned amount is the converted amount and discount and message are those of the
  validation, which rejected.
\<close>

theorem apply_discount_failure_leaves_storage:
  assumes "apply_discount svc now c amount uid p cat af = (Inr (False, r, dd, msg), svc')"
    and "\<forall>e. msg \<noteq> ErrorApplying e"
  shows "svc' = svc
         \<and> (dd = None \<or> svc_get_discount_by_code svc' c = Inr dd)
         \<and> (case to_decimal amount of
               None \<Rightarrow> r = Fin 0 \<and> dd = None \<and> msg = AmountFormatError
             | Some a \<Rightarrow> r = a
                 \<and> validate_discount_code svc now c p cat af uid (Some (IsDecimal a))
                     = Inr (False, dd, msg))"
proof (cases "to_decimal amount")
  case None
  with assms(1) show ?thesis by (auto simp add: apply_discount_def)
next
  case (Some a)
  let ?v = "validate_discount_code svc now c p cat af uid (Some (IsDecimal a))"
  from assms(1) Some obtain ok dd0 m0 where v: "?v = Inr (ok, dd0, m0)"
    by (cases ?v) (auto simp add: apply_discount_def)
  have early: "\<not> ok \<or> dd0 = None"
  proof (rule ccontr)
    assume "\<not> (\<not> ok \<or> dd0 = None)"
    with assms Some v show False
      by (auto simp add: apply_discount_def split: sum.splits prod.splits option.splits)
  qed
  have nok: "\<not> ok"
  proof
    assume ok
    with v validate_valid_has_discount [of svc now c p cat af uid "Some (IsDecimal a)" dd0 m0]
    have "dd0 \<noteq> None" by auto
    with early \<open>ok\<close> show False by simp
  qed
  from assms(1) Some v early have res: "r = a" "dd = dd0" "msg = m0" "svc' = svc"
    by (auto simp add: apply_discount_def)
  have stored: "dd = None \<or> svc_get_discount_by_code svc' c = Inr dd"
  proof (cases dd)
    case None then show ?thesis by simp
  next
    case (Some d)
    with v res have "?v = Inr (ok, Some d, m0)" by simp
    from validate_returns_stored [OF this] Some res show ?thesis by simp
  qed
  from res nok v stored Some show ?thesis by simp
qed

text \<open>
  When the validation raises, \<^verbatim>\<open>apply_discount\<close> raises the same exception and the
  storage is unchanged.
\<close>

lemma apply_discount_raise_leaves_storage:
  assumes "apply_discount svc now c amount uid p cat af = (Inl e, svc')"
  shows "svc' = svc \<and> (\<exists>a. to_decimal amount = Some a
           \<and> validate_discount_code svc now c p cat af uid (Some (IsDecimal a)) = Inl e)"
  using assms
  by (auto simp add: apply_discount_def split: option.splits sum.splits prod.splits if_splits)

text \<open>
  C9, as stated: the amount returned is the original amount. For an amount that does not
  convert to a decimal the amount returned is zero.
\<close>

theorem apply_discount_unreadable_amount:
  "apply_discount (Some (log_adapter, example_store)) 150 ''SAVE10''
      (NonDecimal None) None None None None
     = (Inr (False, Fin 0, None, AmountFormatError), Some (log_adapter, example_store))
   \<and> to_decimal (NonDecimal None) \<noteq> Some (Fin 0)"
  by (simp add: apply_discount_def)

text \<open>
  The hypotheses of C9 hold for the example code at time 50, before its start date.
\<close>

theorem apply_discount_failure_leaves_storage_witness:
  "apply_discount (Some (log_adapter, example_store)) 50 ''SAVE10''
        (IsDecimal (Fin 40)) (Some (IdStr ''u1'')) None None None
      = (Inr (False, Fin 40, Some example_discount, NotYetValid),
         Some (log_adapter, example_store))
   \<and> (\<forall>e. NotYetValid \<noteq> ErrorApplying e)
   \<and> svc_get_discount_by_code (Some (log_adapter, example_store)) ''SAVE10''
        = Inr (Some example_discount)"
proof -
  let ?svc = "Some (log_adapter, example_store)"
  have h1: "apply_discount ?svc 50 ''SAVE10''
        (IsDecimal (Fin 40)) (Some (IdStr ''u1'')) None None None
      = (Inr (False, Fin 40, Some example_discount, NotYetValid), ?svc)"
    by (simp add: apply_discount_def example_early_at_50)
  have h2: "\<forall>e. NotYetValid \<noteq> ErrorApplying e" by simp
  from apply_discount_failure_leaves_storage [OF h1 h2] h1 h2 show ?thesis by simp
qed

end
